theory Spec2Isabelle
  imports Complex_Main "HOL-Library.Word"
begin

unbundle bit_operations_syntax

section \<open>Frame state machine (devices/rtx/frame/Frame.cu)\<close>

subsection \<open>Data model\<close>

text \<open>
  C++ \<open>int\<close> and \<open>uint32_t\<close> are 32-bit words; \<open>int\<close> is read through \<open>sint\<close> and
  compared with the signed orders. The value \<open>-1\<close> is the sentinel of a disabled
  checkerboard phase.
\<close>

type_synonym int32 = "32 word"
type_synonym uint32 = "32 word"

text \<open>The pixel types of ANARI that the frame names; every other code is \<open>ANARI_OTHER\<close>.\<close>

datatype ANARIDataType =
    ANARI_UNKNOWN
  | ANARI_FLOAT32
  | ANARI_UINT32
  | ANARI_FLOAT32_VEC3
  | ANARI_FLOAT32_VEC4
  | ANARI_UFIXED8_VEC4
  | ANARI_UFIXED8_RGBA_SRGB
  | ANARI_OTHER nat

datatype FrameFormat = FLOAT | UINT | SRGB | UNKNOWN

datatype ANARIStatusSeverity = ANARI_SEVERITY_WARNING | ANARI_SEVERITY_ERROR

text \<open>The buffers a frame owns; a pointer is a buffer in one address space, null is \<open>None\<close>.\<close>

datatype Buffer =
    AccumColor | PixelBuffer | DepthBuffer | PrimIDBuffer | ObjIDBuffer | InstIDBuffer
  | AccumAlbedo | DeviceAlbedoBuffer | MappedAlbedoBuffer
  | AccumNormal | DeviceNormalBuffer | MappedNormalBuffer
  | DenoiserColorBuffer

datatype pointer = Host Buffer | Device Buffer

text \<open>What a call does to the outside: messages, stream work and denoiser calls, in order.\<close>

datatype event =
    ReportMessage ANARIStatusSeverity string
  | EventRecordStart
  | EventRecordEnd
  | Upload
  | OptixLaunch uint32 uint32
  | DenoiserSetup
  | DenoiserCleanup
  | DenoiserLaunch

datatype fault = NullPointerDereference string

text \<open>
  The renderer, camera and world are objects outside this file, reached through the
  frame's pointers. A pointer is a handle into the device's object store; the store gives
  what the member functions called by the frame return at the time of the call.
\<close>

record Renderer =
  renderer_isValid :: bool
  renderer_denoise :: bool
  renderer_sampleLimit :: int32
  renderer_spp :: int32
  renderer_checkerboarding :: bool

text \<open>
  The device state a call observes. \<open>commitBufferFlush\<close>, \<open>uploadBuffer.flush\<close> and
  \<open>rebuildBVHs\<close> belong to the commit subsystem and the scene; their effect is the state
  that the rest of the call then reads, so a call is given the state as it is after these
  steps. The two flush time stamps are monotonic counters.
\<close>

record DeviceGlobalState =
  renderers :: "nat \<Rightarrow> Renderer"
  camera_isValid :: "nat \<Rightarrow> bool"
  world_isValid :: "nat \<Rightarrow> bool"
  commitBufferLastFlush :: nat
  uploadBufferLastFlush :: nat

text \<open>The parameters the application has set on the frame object.\<close>

record FrameParams =
  param_renderer :: "nat option"
  param_camera :: "nat option"
  param_world :: "nat option"
  param_channel :: "string \<rightharpoonup> ANARIDataType"
  param_size :: "(uint32 \<times> uint32) option"

record FrameBuffers =
  colorAccumulation :: "Buffer option"
  outColorVec4 :: "Buffer option"
  outColorUint :: "Buffer option"
  depth :: "Buffer option"
  primID :: "Buffer option"
  objID :: "Buffer option"
  instID :: "Buffer option"
  albedo :: "Buffer option"
  normal :: "Buffer option"

text \<open>
  \<open>'f\<close> is the type of single-precision values, \<open>'b\<close> the contents of the frame's host and
  device buffers. The frame state does no arithmetic on either but through the operations
  of \<open>gpu\<close>, which are parameters of the model: the theorems hold for every such
  operation, IEEE division included.
\<close>

record 'f FramebufferGPUData =
  buffers :: FrameBuffers
  frameID :: int32
  checkerboardID :: int32
  invFrameID :: 'f
  format :: FrameFormat
  size_fb :: "uint32 \<times> uint32"
  invSize :: "'f \<times> 'f"

record ('f, 'b) gpu =
  f_one :: 'f
  f_of_int :: "int \<Rightarrow> 'f"
  f_div :: "'f \<Rightarrow> 'f \<Rightarrow> 'f"
  resize :: "Buffer \<Rightarrow> nat \<Rightarrow> 'b \<Rightarrow> 'b"
  launch :: "'f FramebufferGPUData \<Rightarrow> uint32 \<Rightarrow> uint32 \<Rightarrow> 'b \<Rightarrow> 'b"
  denoiser_launch :: "'b \<Rightarrow> 'b"
  download :: "Buffer \<Rightarrow> 'b \<Rightarrow> 'b"
  scale_copy :: "Buffer \<Rightarrow> Buffer \<Rightarrow> Buffer \<Rightarrow> 'f \<Rightarrow> 'b \<Rightarrow> 'b"

record ('f, 'b) Frame =
  params :: FrameParams
  m_renderer :: "nat option"
  m_camera :: "nat option"
  m_world :: "nat option"
  m_valid :: bool
  m_denoise :: bool
  m_colorType :: ANARIDataType
  m_depthType :: ANARIDataType
  m_primIDType :: ANARIDataType
  m_objIDType :: ANARIDataType
  m_instIDType :: ANARIDataType
  m_albedoType :: ANARIDataType
  m_normalType :: ANARIDataType
  m_perPixelBytes :: nat
  fb :: "'f FramebufferGPUData"
  hd_scene :: "(nat \<times> nat \<times> nat) option"
  m_invFrameID :: 'f
  m_nextFrameReset :: bool
  m_lastCommitOccured :: nat
  m_lastUploadOccured :: nat
  m_frameChanged :: bool
  m_frameMappedOnce :: bool
  memory :: 'b
  events :: "event list"

subsection \<open>Helpers\<close>

definition reportMessage ::
  "ANARIStatusSeverity \<Rightarrow> string \<Rightarrow> ('f, 'b) Frame \<Rightarrow> ('f, 'b) Frame" where
  "reportMessage sev msg f = f\<lparr>events := events f @ [ReportMessage sev msg]\<rparr>"

definition emit :: "event \<Rightarrow> ('f, 'b) Frame \<Rightarrow> ('f, 'b) Frame" where
  "emit e f = f\<lparr>events := events f @ [e]\<rparr>"

text \<open>\<open>getParam<ANARIDataType>(name, default)\<close>.\<close>

definition getParam :: "('f, 'b) Frame \<Rightarrow> string \<Rightarrow> ANARIDataType \<Rightarrow> ANARIDataType" where
  "getParam f name dflt = (case param_channel (params f) name of Some t \<Rightarrow> t | None \<Rightarrow> dflt)"

definition isValid :: "('f, 'b) Frame \<Rightarrow> bool" where
  "isValid f = m_valid f"

text \<open>\<open>m_renderer ? m_renderer->checkerboarding() : false\<close>.\<close>

definition checkerboarding :: "DeviceGlobalState \<Rightarrow> ('f, 'b) Frame \<Rightarrow> bool" where
  "checkerboarding state f =
     (case m_renderer f of
        Some r \<Rightarrow> renderer_checkerboarding (renderers state r)
      | None \<Rightarrow> False)"

definition resize_to :: "('f, 'b) gpu \<Rightarrow> Buffer \<Rightarrow> nat \<Rightarrow> ('f, 'b) Frame \<Rightarrow> ('f, 'b) Frame" where
  "resize_to g b n f = f\<lparr>memory := resize g b n (memory f)\<rparr>"

subsection \<open>\<open>Frame::commit\<close>\<close>

text \<open>
  The function in its two parts: binding the three objects and computing \<open>m_valid\<close>
  (up to the early return of an invalid frame), then the channels and the buffers.
\<close>

definition commit_objects ::
  "DeviceGlobalState \<Rightarrow> ('f, 'b) Frame \<Rightarrow> ('f, 'b) Frame" where
  "commit_objects state f0 =
    (let f1 = f0\<lparr>m_renderer := param_renderer (params f0)\<rparr>;
         f2 = (if m_renderer f1 = None
               then reportMessage ANARI_SEVERITY_WARNING
                      ''missing required parameter 'renderer' on frame''
               else id) f1;
         f3 = f2\<lparr>m_camera := param_camera (params f2)\<rparr>;
         f4 = (if m_camera f3 = None
               then reportMessage ANARI_SEVERITY_WARNING
                      ''missing required parameter 'camera' on frame''
               else id) f3;
         f5 = f4\<lparr>m_world := param_world (params f4)\<rparr>;
         f6 = (if m_world f5 = None
               then reportMessage ANARI_SEVERITY_WARNING
                      ''missing required parameter 'world' on frame''
               else id) f5
     in f6\<lparr>m_valid :=
           ((case m_renderer f6 of
               Some r \<Rightarrow> renderer_isValid (renderers state r) | None \<Rightarrow> False)
            \<and> (case m_camera f6 of Some c \<Rightarrow> camera_isValid state c | None \<Rightarrow> False)
            \<and> (case m_world f6 of Some w \<Rightarrow> world_isValid state w | None \<Rightarrow> False))\<rparr>)"

definition commit_buffers :: "('f, 'b) gpu \<Rightarrow> ('f, 'b) Frame \<Rightarrow> ('f, 'b) Frame" where
  "commit_buffers g f7 =
    (let fmt = getParam f7 ''channel.color'' ANARI_UFIXED8_RGBA_SRGB;
         useFloatFB = (m_denoise f7 \<or> fmt = ANARI_FLOAT32_VEC4);
         sz = (case param_size (params f7) of Some s \<Rightarrow> s | None \<Rightarrow> (10, 10));
         depthT = getParam f7 ''channel.depth'' ANARI_UNKNOWN;
         primT = getParam f7 ''channel.primitiveId'' ANARI_UNKNOWN;
         objT = getParam f7 ''channel.objectId'' ANARI_UNKNOWN;
         instT = getParam f7 ''channel.instanceId'' ANARI_UNKNOWN;
         albedoT = getParam f7 ''channel.albedo'' ANARI_UNKNOWN;
         normalT = getParam f7 ''channel.normal'' ANARI_UNKNOWN;
         channelPrimID = (primT = ANARI_UINT32);
         channelObjID = (objT = ANARI_UINT32);
         channelInstID = (instT = ANARI_UINT32);
         channelAlbedo = (albedoT = ANARI_FLOAT32);
         channelNormal = (normalT = ANARI_FLOAT32);
         channelDepth =
           (depthT = ANARI_FLOAT32 \<or> channelPrimID \<or> channelObjID \<or> channelInstID);
         depthT' =
           (if channelDepth \<and> depthT \<noteq> ANARI_FLOAT32 then ANARI_FLOAT32 else depthT);
         numPixels = unat (fst sz * snd sz);
         perPixelBytes = 4 * (if useFloatFB then 4 else 1);
         f8 = f7\<lparr>
           m_colorType := fmt,
           m_depthType := depthT',
           m_primIDType := primT,
           m_objIDType := objT,
           m_instIDType := instT,
           m_albedoType := albedoT,
           m_normalType := normalT,
           m_perPixelBytes := perPixelBytes,
           fb := (fb f7)\<lparr>
             format := (if useFloatFB then FLOAT
                        else if fmt = ANARI_UFIXED8_RGBA_SRGB then SRGB else UINT),
             size_fb := sz,
             invSize := (f_div g (f_one g) (f_of_int g (uint (fst sz))),
                         f_div g (f_one g) (f_of_int g (uint (snd sz)))),
             buffers := \<lparr>
               colorAccumulation = Some AccumColor,
               outColorVec4 = (if useFloatFB then Some PixelBuffer else None),
               outColorUint = (if useFloatFB then None else Some PixelBuffer),
               depth = (if channelDepth then Some DepthBuffer else None),
               primID = (if channelPrimID then Some PrimIDBuffer else None),
               objID = (if channelObjID then Some ObjIDBuffer else None),
               instID = (if channelInstID then Some InstIDBuffer else None),
               albedo = (if channelAlbedo then Some AccumAlbedo else None),
               normal = (if channelNormal then Some AccumNormal else None)\<rparr>\<rparr>\<rparr>;
         f9 = resize_to g AccumColor numPixels f8;
         f10 = resize_to g PixelBuffer (numPixels * perPixelBytes) f9;
         f11 = resize_to g DepthBuffer (if channelDepth then numPixels else 0) f10;
         f12 = resize_to g PrimIDBuffer (if channelPrimID then numPixels else 0) f11;
         f13 = resize_to g ObjIDBuffer (if channelObjID then numPixels else 0) f12;
         f14 = resize_to g InstIDBuffer (if channelInstID then numPixels else 0) f13;
         f15 = resize_to g AccumAlbedo (if channelAlbedo then numPixels else 0) f14;
         f16 = resize_to g DeviceAlbedoBuffer (if channelAlbedo then numPixels else 0) f15;
         f17 = resize_to g MappedAlbedoBuffer (if channelAlbedo then numPixels else 0) f16;
         f18 = resize_to g AccumNormal (if channelNormal then numPixels else 0) f17;
         f19 = resize_to g DeviceNormalBuffer (if channelNormal then numPixels else 0) f18;
         f20 = resize_to g MappedNormalBuffer (if channelNormal then numPixels else 0) f19;
         f21 = emit (if m_denoise f20 then DenoiserSetup else DenoiserCleanup) f20
     in f21\<lparr>m_frameChanged := True\<rparr>)"

definition commit ::
  "('f, 'b) gpu \<Rightarrow> DeviceGlobalState \<Rightarrow> ('f, 'b) Frame \<Rightarrow> ('f, 'b) Frame" where
  "commit g state f0 =
    (let f7 = commit_objects state f0
     in if \<not> m_valid f7 then f7 else commit_buffers g f7)"

subsection \<open>\<open>Frame::checkAccumulationReset\<close> and \<open>Frame::newFrame\<close>\<close>

definition checkAccumulationReset ::
  "DeviceGlobalState \<Rightarrow> ('f, 'b) Frame \<Rightarrow> ('f, 'b) Frame" where
  "checkAccumulationReset state f =
    (if m_nextFrameReset f then f
     else
       let f1 = (if m_lastCommitOccured f < commitBufferLastFlush state
                 then f\<lparr>m_lastCommitOccured := commitBufferLastFlush state,
                         m_nextFrameReset := True\<rparr>
                 else f);
           f2 = (if m_lastUploadOccured f1 < uploadBufferLastFlush state
                 then f1\<lparr>m_lastUploadOccured := uploadBufferLastFlush state,
                          m_nextFrameReset := True\<rparr>
                 else f1)
       in f2)"

definition newFrame ::
  "('f, 'b) gpu \<Rightarrow> DeviceGlobalState \<Rightarrow> ('f, 'b) Frame \<Rightarrow> ('f, 'b) Frame" where
  "newFrame g state f =
    (let f1 =
           (if m_nextFrameReset f
            then f\<lparr>fb := (fb f)\<lparr>frameID := 0,
                                 checkerboardID := (if checkerboarding state f then 0 else - 1)\<rparr>,
                    m_nextFrameReset := False\<rparr>
            else f\<lparr>fb := (fb f)\<lparr>
                      frameID := frameID (fb f)
                        + (if \<not> checkerboarding state f \<or> checkerboardID (fb f) = 3
                           then 1 else 0),
                      checkerboardID :=
                        (if checkerboarding state f
                         then (checkerboardID (fb f) + 1) AND 3 else - 1)\<rparr>\<rparr>);
         inv = f_div g (f_one g) (f_of_int g (sint (frameID (fb f1) + 1)))
     in f1\<lparr>fb := (fb f1)\<lparr>invFrameID := inv\<rparr>, m_invFrameID := inv,
            m_frameChanged := False\<rparr>)"

subsection \<open>\<open>Frame::renderFrame\<close>\<close>

text \<open>
  The loop \<open>for (int i = 0; i < spp; i++)\<close>: \<open>newFrame\<close>, \<open>upload\<close>, \<open>optixLaunch\<close>.
  The launch covers the whole frame, or half of each dimension rounded up when
  checkerboarding.
\<close>

fun render_samples ::
  "nat \<Rightarrow> ('f, 'b) gpu \<Rightarrow> DeviceGlobalState \<Rightarrow> ('f, 'b) Frame \<Rightarrow> ('f, 'b) Frame" where
  "render_samples 0 g state f = f"
| "render_samples (Suc n) g state f =
    (let f1 = newFrame g state f;
         f2 = emit Upload f1;
         w = (if checkerboarding state f2
              then (fst (size_fb (fb f2)) + 1) div 2 else fst (size_fb (fb f2)));
         h = (if checkerboarding state f2
              then (snd (size_fb (fb f2)) + 1) div 2 else snd (size_fb (fb f2)));
         f3 = (emit (OptixLaunch w h) f2)\<lparr>memory := launch g (fb f2) w h (memory f2)\<rparr>
     in render_samples n g state f3)"

text \<open>
  \<open>wait()\<close> blocks on the previous launch and changes nothing of the frame. A member
  call through a null pointer is a fault. \<open>m_world->rebuildBVHs()\<close> comes before the
  validity check.
\<close>

definition renderFrame ::
  "('f, 'b) gpu \<Rightarrow> DeviceGlobalState \<Rightarrow> ('f, 'b) Frame \<Rightarrow> fault + ('f, 'b) Frame" where
  "renderFrame g state f0 =
    (case m_world f0 of
       None \<Rightarrow> Inl (NullPointerDereference ''m_world'')
     | Some w0 \<Rightarrow>
        if \<not> isValid f0
        then Inr (reportMessage ANARI_SEVERITY_ERROR
                    ''skipping render of incomplete or invalid frame object'' f0)
        else
          (case m_renderer f0 of
             None \<Rightarrow> Inl (NullPointerDereference ''m_renderer'')
           | Some r0 \<Rightarrow>
              let wasDenoising = m_denoise f0;
                  f1 = f0\<lparr>m_denoise := renderer_denoise (renderers state r0)\<rparr>;
                  f2 = (if m_denoise f1 \<noteq> wasDenoising then commit g state f1 else f1);
                  f3 = f2\<lparr>m_frameMappedOnce := False\<rparr>;
                  f4 = checkAccumulationReset state f3
              in
                (case m_renderer f4 of
                   None \<Rightarrow> Inl (NullPointerDereference ''m_renderer'')
                 | Some r \<Rightarrow>
                    let sampleLimit = renderer_sampleLimit (renderers state r)
                    in
                      if \<not> m_nextFrameReset f4 \<and> 0 <s sampleLimit
                         \<and> sampleLimit \<le>s frameID (fb f4)
                      then Inr f4
                      else
                        (let f5 = emit EventRecordStart f4
                         in case m_camera f5 of
                              None \<Rightarrow> Inl (NullPointerDereference ''m_camera'')
                            | Some c \<Rightarrow>
                               (case m_world f5 of
                                  None \<Rightarrow> Inl (NullPointerDereference ''m_world'')
                                | Some w \<Rightarrow>
                                   let f6 = f5\<lparr>hd_scene := Some (r, c, w)\<rparr>;
                                       spp = (if renderer_spp (renderers state r) <s 1
                                              then 1 else renderer_spp (renderers state r));
                                       f7 = render_samples (nat (sint spp)) g state f6;
                                       f8 = (if m_denoise f7
                                             then (emit DenoiserLaunch f7)
                                                    \<lparr>memory := denoiser_launch g (memory f7)\<rparr>
                                             else f7)
                                   in Inr (emit EventRecordEnd f8))))))"

subsection \<open>\<open>Frame::map\<close>\<close>

text \<open>What \<open>map\<close> hands back: the pointer, and the three outputs (\<open>None\<close>: not written).\<close>

record MapResult =
  retval :: "pointer option"
  width :: "uint32 option"
  height :: "uint32 option"
  pixelType :: ANARIDataType

definition mapColorBuffer ::
  "('f, 'b) gpu \<Rightarrow> ('f, 'b) Frame \<Rightarrow> pointer option \<times> ('f, 'b) Frame" where
  "mapColorBuffer g f =
    (if m_denoise f
     then (Some (Host DenoiserColorBuffer), f\<lparr>m_frameMappedOnce := True\<rparr>)
     else (Some (Host PixelBuffer),
           f\<lparr>memory := download g PixelBuffer (memory f), m_frameMappedOnce := True\<rparr>))"

definition mapGPUColorBuffer ::
  "('f, 'b) Frame \<Rightarrow> pointer option \<times> ('f, 'b) Frame" where
  "mapGPUColorBuffer f =
    (Some (Device (if m_denoise f then DenoiserColorBuffer else PixelBuffer)),
     f\<lparr>m_frameMappedOnce := True\<rparr>)"

definition mapDownloaded ::
  "('f, 'b) gpu \<Rightarrow> Buffer \<Rightarrow> ('f, 'b) Frame \<Rightarrow> pointer option \<times> ('f, 'b) Frame" where
  "mapDownloaded g b f =
    (Some (Host b), f\<lparr>memory := download g b (memory f), m_frameMappedOnce := True\<rparr>)"

definition mapGPUDepthBuffer ::
  "('f, 'b) Frame \<Rightarrow> pointer option \<times> ('f, 'b) Frame" where
  "mapGPUDepthBuffer f = (Some (Device DepthBuffer), f\<lparr>m_frameMappedOnce := True\<rparr>)"

definition mapScaled ::
  "('f, 'b) gpu \<Rightarrow> Buffer \<Rightarrow> Buffer \<Rightarrow> Buffer \<Rightarrow> ('f, 'b) Frame
     \<Rightarrow> pointer option \<times> ('f, 'b) Frame" where
  "mapScaled g accum dev mapped f =
    (Some (Host mapped),
     f\<lparr>memory := scale_copy g accum dev mapped (m_invFrameID f) (memory f),
       m_frameMappedOnce := True\<rparr>)"

definition map_frame ::
  "('f, 'b) gpu \<Rightarrow> string \<Rightarrow> ('f, 'b) Frame \<Rightarrow> MapResult \<times> ('f, 'b) Frame" where
  "map_frame g channel f =
    (let channelDepth = (m_depthType f = ANARI_FLOAT32);
         channelPrimID = (m_primIDType f = ANARI_UINT32);
         channelObjID = (m_objIDType f = ANARI_UINT32);
         channelInstID = (m_instIDType f = ANARI_UINT32);
         channelAlbedo = (m_albedoType f = ANARI_FLOAT32);
         channelNormal = (m_normalType f = ANARI_FLOAT32);
         (type, (ret, f')) =
           (if channel = ''channel.color'' then (m_colorType f, mapColorBuffer g f)
            else if channel = ''channel.colorGPU'' then (m_colorType f, mapGPUColorBuffer f)
            else if channelDepth \<and> channel = ''channel.depth''
              then (ANARI_FLOAT32, mapDownloaded g DepthBuffer f)
            else if channelDepth \<and> channel = ''channel.depthGPU''
              then (ANARI_FLOAT32, mapGPUDepthBuffer f)
            else if channelPrimID \<and> channel = ''channel.primitiveId''
              then (ANARI_UINT32, mapDownloaded g PrimIDBuffer f)
            else if channelObjID \<and> channel = ''channel.objectId''
              then (ANARI_UINT32, mapDownloaded g ObjIDBuffer f)
            else if channelInstID \<and> channel = ''channel.instanceId''
              then (ANARI_UINT32, mapDownloaded g InstIDBuffer f)
            else if channelNormal \<and> channel = ''channel.normal''
              then (ANARI_FLOAT32_VEC3,
                    mapScaled g AccumNormal DeviceNormalBuffer MappedNormalBuffer f)
            else if channelAlbedo \<and> channel = ''channel.albedo''
              then (ANARI_FLOAT32_VEC3,
                    mapScaled g AccumAlbedo DeviceAlbedoBuffer MappedAlbedoBuffer f)
            else (ANARI_UNKNOWN, (None, f)))
     in (\<lparr>retval = ret,
          width = (if type \<noteq> ANARI_UNKNOWN then Some (fst (size_fb (fb f'))) else None),
          height = (if type \<noteq> ANARI_UNKNOWN then Some (snd (size_fb (fb f'))) else None),
          pixelType = type\<rparr>, f'))"

subsection \<open>Predicates used to state the frame theorems\<close>

text \<open>
  A valid frame whose three pointers are the objects \<open>r\<close>, \<open>c\<close>, \<open>w\<close>, with the frame's
  parameters naming the same objects (so that a commit inside \<open>renderFrame\<close> binds them again).
\<close>

definition bound_to :: "('f, 'b) Frame \<Rightarrow> nat \<Rightarrow> nat \<Rightarrow> nat \<Rightarrow> bool" where
  "bound_to f r c w =
    (m_valid f
     \<and> m_renderer f = Some r \<and> param_renderer (params f) = Some r
     \<and> m_camera f = Some c \<and> param_camera (params f) = Some c
     \<and> m_world f = Some w \<and> param_world (params f) = Some w)"

definition objects_valid :: "DeviceGlobalState \<Rightarrow> nat \<Rightarrow> nat \<Rightarrow> nat \<Rightarrow> bool" where
  "objects_valid state r c w =
    (renderer_isValid (renderers state r) \<and> camera_isValid state c \<and> world_isValid state w)"

text \<open>
  A reset is pending at a call when the flag is already set or one of the two flush
  counters is ahead of the value the frame has cached: the outcome of
  \<open>checkAccumulationReset\<close>.
\<close>

definition reset_pending :: "DeviceGlobalState \<Rightarrow> ('f, 'b) Frame \<Rightarrow> bool" where
  "reset_pending state f =
    (m_nextFrameReset f
     \<or> m_lastCommitOccured f < commitBufferLastFlush state
     \<or> m_lastUploadOccured f < uploadBufferLastFlush state)"

text \<open>
  The frame as \<open>renderFrame\<close> has it after \<open>checkAccumulationReset\<close>, for a valid frame
  with renderer \<open>r\<close>: the denoise flag read, the frame committed again when it toggled,
  \<open>m_frameMappedOnce\<close> cleared, the reset decided.
\<close>

definition frame_setup ::
  "('f, 'b) gpu \<Rightarrow> DeviceGlobalState \<Rightarrow> nat \<Rightarrow> ('f, 'b) Frame \<Rightarrow> ('f, 'b) Frame" where
  "frame_setup g state r f =
    checkAccumulationReset state
      ((if renderer_denoise (renderers state r) \<noteq> m_denoise f
        then commit g state (f\<lparr>m_denoise := renderer_denoise (renderers state r)\<rparr>)
        else f\<lparr>m_denoise := renderer_denoise (renderers state r)\<rparr>)
       \<lparr>m_frameMappedOnce := False\<rparr>)"

text \<open>
  The channels \<open>map\<close> serves after a commit with parameters \<open>p\<close>, as the code has them:
  colour always, depth when depth was asked as \<open>FLOAT32\<close> or one of the three id channels as
  \<open>UINT32\<close>, an id channel asked as \<open>UINT32\<close>, normal and albedo asked as \<open>FLOAT32\<close>.
\<close>

definition channel_served :: "FrameParams \<Rightarrow> string \<Rightarrow> bool" where
  "channel_served p channel =
    (channel = ''channel.color'' \<or> channel = ''channel.colorGPU''
     \<or> ((channel = ''channel.depth'' \<or> channel = ''channel.depthGPU'')
         \<and> (param_channel p ''channel.depth'' = Some ANARI_FLOAT32
            \<or> param_channel p ''channel.primitiveId'' = Some ANARI_UINT32
            \<or> param_channel p ''channel.objectId'' = Some ANARI_UINT32
            \<or> param_channel p ''channel.instanceId'' = Some ANARI_UINT32))
     \<or> (channel = ''channel.primitiveId''
         \<and> param_channel p ''channel.primitiveId'' = Some ANARI_UINT32)
     \<or> (channel = ''channel.objectId''
         \<and> param_channel p ''channel.objectId'' = Some ANARI_UINT32)
     \<or> (channel = ''channel.instanceId''
         \<and> param_channel p ''channel.instanceId'' = Some ANARI_UINT32)
     \<or> (channel = ''channel.normal''
         \<and> param_channel p ''channel.normal'' = Some ANARI_FLOAT32)
     \<or> (channel = ''channel.albedo''
         \<and> param_channel p ''channel.albedo'' = Some ANARI_FLOAT32))"

text \<open>The pixel type \<open>map\<close> reports for a served channel.\<close>

definition served_type :: "FrameParams \<Rightarrow> string \<Rightarrow> ANARIDataType" where
  "served_type p channel =
    (if channel = ''channel.color'' \<or> channel = ''channel.colorGPU''
     then (case param_channel p ''channel.color'' of
             Some t \<Rightarrow> t | None \<Rightarrow> ANARI_UFIXED8_RGBA_SRGB)
     else if channel = ''channel.depth'' \<or> channel = ''channel.depthGPU'' then ANARI_FLOAT32
     else if channel = ''channel.normal'' \<or> channel = ''channel.albedo''
     then ANARI_FLOAT32_VEC3
     else ANARI_UINT32)"

text \<open>The channels \<open>map\<close> serves, in terms of the types the frame has stored.\<close>

definition gate :: "('f, 'b) Frame \<Rightarrow> string \<Rightarrow> bool" where
  "gate f channel =
    (channel = ''channel.color'' \<or> channel = ''channel.colorGPU''
     \<or> (m_depthType f = ANARI_FLOAT32
         \<and> (channel = ''channel.depth'' \<or> channel = ''channel.depthGPU''))
     \<or> (m_primIDType f = ANARI_UINT32 \<and> channel = ''channel.primitiveId'')
     \<or> (m_objIDType f = ANARI_UINT32 \<and> channel = ''channel.objectId'')
     \<or> (m_instIDType f = ANARI_UINT32 \<and> channel = ''channel.instanceId'')
     \<or> (m_normalType f = ANARI_FLOAT32 \<and> channel = ''channel.normal'')
     \<or> (m_albedoType f = ANARI_FLOAT32 \<and> channel = ''channel.albedo''))"


section \<open>Integrator: the raygen loop and the shadow rays (scivis renderer)\<close>

subsection \<open>Data model\<close>

text \<open>
  On the device side single-precision values are read as real numbers: sums, products and
  comparisons are exact, and infinities and NaN are outside the model. The loop does no
  division. \<open>ScreenSample\<close> (the pixel and its random state, passed by reference to most
  helpers) is the type \<open>'ss\<close>; a helper that takes it returns it.
\<close>

type_synonym vec3 = "real \<times> real \<times> real"

definition vadd :: "vec3 \<Rightarrow> vec3 \<Rightarrow> vec3" where
  "vadd a b = (case a of (ax, ay, az) \<Rightarrow> case b of (bx, by, bz) \<Rightarrow> (ax + bx, ay + by, az + bz))"

definition vmul :: "vec3 \<Rightarrow> vec3 \<Rightarrow> vec3" where
  "vmul a b = (case a of (ax, ay, az) \<Rightarrow> case b of (bx, by, bz) \<Rightarrow> (ax * bx, ay * by, az * bz))"

definition vscale :: "vec3 \<Rightarrow> real \<Rightarrow> vec3" where
  "vscale a s = (case a of (ax, ay, az) \<Rightarrow> (ax * s, ay * s, az * s))"

definition vneg :: "vec3 \<Rightarrow> vec3" where
  "vneg a = (case a of (ax, ay, az) \<Rightarrow> (- ax, - ay, - az))"

definition dot :: "vec3 \<Rightarrow> vec3 \<Rightarrow> real" where
  "dot a b = (case a of (ax, ay, az) \<Rightarrow> case b of (bx, by, bz) \<Rightarrow> ax * bx + ay * by + az * bz)"

record Ray =
  org :: vec3
  dir :: vec3
  t_lower :: real
  t_upper :: real

record SurfaceHit =
  hit_t :: real
  hit_epsilon :: real
  hitpoint :: vec3
  hit_Ng :: vec3
  hit_Ns :: vec3
  hit_primID :: uint32
  hit_objID :: uint32
  hit_instID :: uint32
  hit_material :: nat

record VolumeHit =
  vhit_t :: real
  vhit_volume :: nat

record MaterialValues =
  baseColor :: vec3
  opacity :: real

record LightSample =
  radiance :: vec3
  ls_dir :: vec3
  ls_dist :: real

text \<open>What \<open>rayMarchAllVolumes\<close> hands back: the depth it returns and its four outputs.\<close>

record VolumeMarch =
  vm_depth :: real
  vm_color :: vec3
  vm_opacity :: real
  vm_objID :: uint32
  vm_instID :: uint32

text \<open>
  The frame data and the helpers of \<open>gpu/shading_api.h\<close> that the programs call. The
  helpers and the OptiX traversal behind them are not part of the programs: they are
  parameters. \<open>intersectSurface\<close> gives the closest hit of the ray's interval, if any.
  \<open>shadow_surfaces\<close> and \<open>shadow_volumes\<close> list the intersections a shadow ray's traversal
  reports within the ray's interval, in the order it reports them.
\<close>

record 'ss FrameData =
  lightInstances :: "nat list list"
  lightFalloff :: real
  aoSamples :: int32
  ambientColor :: vec3
  ambientIntensity :: real
  occlusionDistance :: real
  createScreenSample :: 'ss
  pixelOutOfFrame :: "'ss \<Rightarrow> bool"
  makePrimaryRay :: "'ss \<Rightarrow> Ray"
  intersectSurface :: "'ss \<Rightarrow> Ray \<Rightarrow> SurfaceHit option \<times> 'ss"
  rayMarchAllVolumes ::
    "'ss \<Rightarrow> Ray \<Rightarrow> real \<Rightarrow> vec3 \<Rightarrow> real \<Rightarrow> uint32 \<Rightarrow> uint32 \<Rightarrow> VolumeMarch \<times> 'ss"
  rayMarchVolume :: "'ss \<Rightarrow> VolumeHit \<Rightarrow> real \<Rightarrow> real \<times> 'ss"
  getMaterialValues :: "SurfaceHit \<Rightarrow> MaterialValues"
  computeAO :: "'ss \<Rightarrow> Ray \<Rightarrow> SurfaceHit \<Rightarrow> real \<Rightarrow> int32 \<Rightarrow> real \<times> 'ss"
  sampleLight :: "'ss \<Rightarrow> SurfaceHit \<Rightarrow> nat \<Rightarrow> LightSample \<times> 'ss"
  getBackground :: "'ss \<Rightarrow> vec3 \<times> real"
  ray_t_lower :: real
  shadow_surfaces :: "Ray \<Rightarrow> SurfaceHit list"
  shadow_volumes :: "Ray \<Rightarrow> VolumeHit list"

subsection \<open>Compositing\<close>

text \<open>
  Modelled from the spec: \<open>accumulateValue(a, b, interp)\<close> of \<open>gpu/shading_api.h\<close> is not
  among the sources. The spec composites front to back under the over operator,
  \<open>result = src + dst * (1 - src.alpha)\<close>: the accumulated value \<open>a\<close> gains \<open>b\<close> weighted by
  one minus the opacity \<open>interp\<close> accumulated so far. \<open>interp\<close> is passed by value, so
  \<open>accumulateValue(opacity, x, opacity)\<close> reads the opacity before it is updated.
\<close>

definition accumulateValue :: "real \<Rightarrow> real \<Rightarrow> real \<Rightarrow> real" where
  "accumulateValue a b interp = a + b * (1 - interp)"

definition accumulateValue3 :: "vec3 \<Rightarrow> vec3 \<Rightarrow> real \<Rightarrow> vec3" where
  "accumulateValue3 a b interp = vadd a (vscale b (1 - interp))"

subsection \<open>\<open>__anyhit__shadow\<close> and the two shadow queries\<close>

datatype anyhit_action = TerminateRay | IgnoreIntersection | AcceptHit

text \<open>The branch \<open>ray::isIntersectingSurfaces()\<close>: the payload is the flag \<open>occluded\<close>.\<close>

definition anyhit_shadow_surface ::
  "'ss FrameData \<Rightarrow> SurfaceHit \<Rightarrow> bool \<Rightarrow> bool \<times> anyhit_action" where
  "anyhit_shadow_surface fd hit occluded =
    (let matValues = getMaterialValues fd hit
     in if 0.99 \<le> opacity matValues then (True, TerminateRay)
        else (occluded, IgnoreIntersection))"

text \<open>The other branch: the payload is the attenuation of \<open>RayAttenuation\<close>.\<close>

definition anyhit_shadow_volume ::
  "'ss FrameData \<Rightarrow> 'ss \<Rightarrow> VolumeHit \<Rightarrow> real \<Rightarrow> (real \<times> 'ss) \<times> anyhit_action" where
  "anyhit_shadow_volume fd ss hit att =
    (let r = rayMarchVolume fd ss hit att
     in if fst r < 0.99 then (r, IgnoreIntersection) else (r, AcceptHit))"

text \<open>
  Modelled from the spec: \<open>isOccluded\<close> (\<open>gpu/shading_api.h\<close>) and the OptiX traversal it
  starts are not among the sources. The spec has a light visible when the occlusion query
  up to the light distance finds no fully opaque surface, an opaque surface ending the
  shadow ray at once and a partially transparent one being ignored. So: the flag starts
  false, the any-hit program runs on each reported intersection in turn, a terminated ray
  visits nothing more, an ignored intersection lets the traversal go on, and the flag is
  the answer. The surface branch of the any-hit program does not touch the screen sample,
  so the query leaves it as it is.
\<close>

fun trace_shadow_surfaces :: "'ss FrameData \<Rightarrow> SurfaceHit list \<Rightarrow> bool \<Rightarrow> bool" where
  "trace_shadow_surfaces fd [] occluded = occluded"
| "trace_shadow_surfaces fd (hit # hits) occluded =
    (case anyhit_shadow_surface fd hit occluded of
       (occluded', TerminateRay) \<Rightarrow> occluded'
     | (occluded', _) \<Rightarrow> trace_shadow_surfaces fd hits occluded')"

definition isOccluded :: "'ss FrameData \<Rightarrow> Ray \<Rightarrow> bool" where
  "isOccluded fd r = trace_shadow_surfaces fd (shadow_surfaces fd r) False"

text \<open>
  Modelled from the spec: \<open>intersectVolume\<close> and the traversal are not among the sources.
  Every volume the shadow ray crosses adds to the attenuation through the any-hit
  program; an accepted hit (closest-hit is disabled) shortens the ray to that hit, so
  the intersections behind it are not reported.
\<close>

function trace_shadow_volumes ::
  "'ss FrameData \<Rightarrow> 'ss \<Rightarrow> VolumeHit list \<Rightarrow> real \<Rightarrow> real \<times> 'ss" where
  "trace_shadow_volumes fd ss [] att = (att, ss)"
| "trace_shadow_volumes fd ss (hit # hits) att =
    (case anyhit_shadow_volume fd ss hit att of
       ((att', ss'), AcceptHit) \<Rightarrow>
         trace_shadow_volumes fd ss' (filter (\<lambda>h. vhit_t h < vhit_t hit) hits) att'
     | ((att', ss'), _) \<Rightarrow> trace_shadow_volumes fd ss' hits att')"
  by pat_completeness auto
termination
  by (relation "measure (\<lambda>(fd, ss, hits, att). length hits)")
     (auto simp add: less_Suc_eq_le)

text \<open>\<open>attenuation(ss, r)\<close>: the payload starts at \<open>0.f\<close>.\<close>

definition attenuation :: "'ss FrameData \<Rightarrow> 'ss \<Rightarrow> Ray \<Rightarrow> real \<times> 'ss" where
  "attenuation fd ss r = trace_shadow_volumes fd ss (shadow_volumes fd r) 0"

subsection \<open>\<open>computeLightConrib\<close>\<close>

text \<open>The body of the inner loop: one light of one instance.\<close>

definition light_contrib ::
  "'ss FrameData \<Rightarrow> SurfaceHit \<Rightarrow> vec3 \<Rightarrow> vec3 \<times> 'ss \<Rightarrow> nat \<Rightarrow> vec3 \<times> 'ss" where
  "light_contrib fd hit shadePoint acc l =
    (case acc of (contrib, ss) \<Rightarrow>
       let (ls, ss1) = sampleLight fd ss hit l;
           r = \<lparr>org = shadePoint, dir = ls_dir ls, t_lower = ray_t_lower fd,
                t_upper = ls_dist ls\<rparr>
       in if \<not> isOccluded fd r
          then (let (a, ss2) = attenuation fd ss1 r
                in (vadd contrib
                      (vscale (radiance ls)
                         (dot (ls_dir ls) (hit_Ns hit) * lightFalloff fd * (1 - a))), ss2))
          else (contrib, ss1))"

definition computeLightConrib :: "'ss FrameData \<Rightarrow> 'ss \<Rightarrow> SurfaceHit \<Rightarrow> vec3 \<times> 'ss" where
  "computeLightConrib fd ss hit =
    (let shadePoint = vadd (hitpoint hit) (vscale (hit_Ns hit) (hit_epsilon hit))
     in fold (\<lambda>inst acc. fold (\<lambda>l acc'. light_contrib fd hit shadePoint acc' l) inst acc)
          (lightInstances fd) ((0, 0, 0), ss))"

subsection \<open>\<open>__raygen__\<close>\<close>

text \<open>The locals of the program that live across iterations of its loop.\<close>

record 'ss Pixel =
  ss :: 'ss
  ray :: Ray
  tmax :: real
  outputColor :: vec3
  outputNormal :: vec3
  outputOpacity :: real
  depth_px :: real
  primID_px :: uint32
  objID_px :: uint32
  instID_px :: uint32
  firstHit :: bool

text \<open>The locals before the loop; \<open>~0u\<close> is the word \<open>-1\<close> and \<open>1e30f\<close> the real \<open>10 ^ 30\<close>.\<close>

definition raygen_init :: "'ss FrameData \<Rightarrow> 'ss \<Rightarrow> 'ss Pixel" where
  "raygen_init fd s =
    \<lparr>ss = s, ray = makePrimaryRay fd s, tmax = t_upper (makePrimaryRay fd s),
     outputColor = (0, 0, 0), outputNormal = dir (makePrimaryRay fd s), outputOpacity = 0,
     depth_px = 10 ^ 30, primID_px = - 1, objID_px = - 1, instID_px = - 1, firstHit = True\<rparr>"

text \<open>The branch \<open>if (surfaceHit.foundHit)\<close> of the loop body.\<close>

definition hit_step :: "'ss FrameData \<Rightarrow> 'ss Pixel \<Rightarrow> SurfaceHit \<Rightarrow> 'ss Pixel" where
  "hit_step fd p surfaceHit =
    (let (vm, ss1) = rayMarchAllVolumes fd (ss p) (ray p) (hit_t surfaceHit)
                        (0, 0, 0) 0 (- 1) (- 1);
         color = vm_color vm;
         opacity0 = vm_opacity vm;
         vDepth = vm_depth vm;
         p1 = (if firstHit p
               then (if vDepth < hit_t surfaceHit
                     then p\<lparr>outputNormal := vneg (dir (ray p)), depth_px := vDepth,
                            primID_px := 0, objID_px := vm_objID vm,
                            instID_px := vm_instID vm, firstHit := False\<rparr>
                     else p\<lparr>outputNormal := hit_Ng surfaceHit, depth_px := hit_t surfaceHit,
                            primID_px := hit_primID surfaceHit,
                            objID_px := hit_objID surfaceHit,
                            instID_px := hit_instID surfaceHit, firstHit := False\<rparr>)
               else p);
         matValues = getMaterialValues fd surfaceHit;
         (ao, ss2) = (if 0 <s aoSamples fd
                      then computeAO fd ss1 (ray p) surfaceHit (occlusionDistance fd)
                             (aoSamples fd)
                      else (1, ss1));
         aoFactor = ao * ambientIntensity fd;
         (lc, ss3) = computeLightConrib fd ss2 surfaceHit;
         color1 = accumulateValue3 color
                    (vmul (baseColor matValues)
                       (vadd lc (vscale (ambientColor fd) (aoFactor * lightFalloff fd))))
                    opacity0;
         opacity1 = accumulateValue opacity0 (opacity matValues) opacity0;
         color2 = vscale color1 opacity1
     in p1\<lparr>ss := ss3,
           outputColor := accumulateValue3 (outputColor p) color2 (outputOpacity p),
           outputOpacity := accumulateValue (outputOpacity p) opacity1 (outputOpacity p),
           ray := (ray p)\<lparr>t_lower := hit_t surfaceHit + hit_epsilon surfaceHit\<rparr>\<rparr>)"

text \<open>The \<open>else\<close> branch, which ends with \<open>break\<close>.\<close>

definition miss_step :: "'ss FrameData \<Rightarrow> 'ss Pixel \<Rightarrow> 'ss Pixel" where
  "miss_step fd p =
    (let (vm, ss1) = rayMarchAllVolumes fd (ss p) (ray p) (t_upper (ray p))
                        (0, 0, 0) 0 (- 1) (- 1);
         color = vm_color vm;
         opacity0 = vm_opacity vm;
         p1 = (if firstHit p
               then p\<lparr>depth_px := min (depth_px p) (vm_depth vm), primID_px := 0,
                      objID_px := vm_objID vm, instID_px := vm_instID vm\<rparr>
               else p);
         color1 = vscale color opacity0;
         bg = getBackground fd ss1;
         color2 = accumulateValue3 color1 (fst bg) opacity0;
         opacity1 = accumulateValue opacity0 (snd bg) opacity0
     in p1\<lparr>ss := ss1,
           outputColor := accumulateValue3 (outputColor p) color2 (outputOpacity p),
           outputOpacity := accumulateValue (outputOpacity p) opacity1 (outputOpacity p)\<rparr>)"

text \<open>
  \<open>while (outputOpacity < 0.99f)\<close>. Nothing bounds the number of surfaces the ray can
  meet, so the loop is a partial function: \<open>None\<close> is a loop that does not end.
\<close>

partial_function (option) raygen_loop :: "'ss FrameData \<Rightarrow> 'ss Pixel \<Rightarrow> 'ss Pixel option" where
  "raygen_loop fd p =
    (if outputOpacity p < 0.99
     then (let p0 = p\<lparr>ray := (ray p)\<lparr>t_upper := tmax p\<rparr>\<rparr>
           in case intersectSurface fd (ss p0) (ray p0) of
                (Some surfaceHit, ss') \<Rightarrow> raygen_loop fd (hit_step fd (p0\<lparr>ss := ss'\<rparr>) surfaceHit)
              | (None, ss') \<Rightarrow> Some (miss_step fd (p0\<lparr>ss := ss'\<rparr>)))
     else Some p)"

text \<open>
  The program: \<open>Some None\<close> is the early return of a pixel outside the frame,
  \<open>Some (Some p)\<close> the locals handed to \<open>accumResults\<close>.
\<close>

definition raygen :: "'ss FrameData \<Rightarrow> 'ss Pixel option option" where
  "raygen fd =
    (let s = createScreenSample fd
     in if pixelOutOfFrame fd s then Some None
        else map_option Some (raygen_loop fd (raygen_init fd s)))"

text \<open>
  A stack of surfaces along the ray, nearest first, as a scene: the closest hit of an
  interval is the first surface of the list whose distance lies in it. There are no volumes,
  no lights and a black, transparent background.
\<close>

definition stack_scene :: "SurfaceHit list \<Rightarrow> (nat \<Rightarrow> MaterialValues) \<Rightarrow> unit FrameData" where
  "stack_scene surfaces materials =
    \<lparr>lightInstances = [], lightFalloff = 1, aoSamples = 0, ambientColor = (1, 1, 1),
     ambientIntensity = 1, occlusionDistance = 1,
     createScreenSample = (), pixelOutOfFrame = (\<lambda>s. False),
     makePrimaryRay = (\<lambda>s. \<lparr>org = (0, 0, 0), dir = (0, 0, 1), t_lower = 0, t_upper = 1000\<rparr>),
     intersectSurface =
       (\<lambda>s r. (List.find (\<lambda>h. t_lower r \<le> hit_t h \<and> hit_t h \<le> t_upper r) surfaces, s)),
     rayMarchAllVolumes =
       (\<lambda>s r tfar c a oid iid.
          (\<lparr>vm_depth = tfar, vm_color = c, vm_opacity = a, vm_objID = oid, vm_instID = iid\<rparr>,
           s)),
     rayMarchVolume = (\<lambda>s h a. (a, s)),
     getMaterialValues = (\<lambda>h. materials (hit_material h)),
     computeAO = (\<lambda>s r h d n. (1, s)),
     sampleLight = (\<lambda>s h l. (\<lparr>radiance = (1, 1, 1), ls_dir = (0, 0, - 1), ls_dist = 1\<rparr>, s)),
     getBackground = (\<lambda>s. ((0, 0, 0), 0)),
     ray_t_lower = 0,
     shadow_surfaces = (\<lambda>r. filter (\<lambda>h. t_lower r \<le> hit_t h \<and> hit_t h \<le> t_upper r) surfaces),
     shadow_volumes = (\<lambda>r. [])\<rparr>"

definition surface_at :: "real \<Rightarrow> nat \<Rightarrow> SurfaceHit" where
  "surface_at d m =
    \<lparr>hit_t = d, hit_epsilon = 0.001, hitpoint = (0, 0, d), hit_Ng = (0, 0, - 1),
     hit_Ns = (0, 0, - 1), hit_primID = word_of_nat m, hit_objID = word_of_nat m,
     hit_instID = 0, hit_material = m\<rparr>"

section \<open>Transfer function (devices/rtx/scene/volume/TransferFunction1D.cpp)\<close>

text \<open>
  The parameters of the volume as \<open>commit\<close> reads them: an array parameter that is not set
  is a null pointer, \<open>None\<close>. \<open>'c\<close> is the type of a colour and \<open>'f\<close> of a float; the
  discretization does no arithmetic of its own but through the helpers of
  \<open>utility/colorMapHelpers.h\<close>, which are parameters, as is the constant \<open>m_tfDim\<close>.
\<close>

record ('c, 'f) TFParams =
  params_color :: "'c list option"
  params_colorPosition :: "'f list option"
  params_opacity :: "'f list option"
  params_opacityPosition :: "'f list option"
  params_densityScale :: 'f
  params_field :: "nat option"
  params_valueRange :: "'f \<times> 'f"

record ('c, 'f) TFHelpers =
  m_tfDim :: nat
  generateLinearPositions :: "nat \<Rightarrow> 'f \<times> 'f \<Rightarrow> 'f list"
  getInterpolatedColor :: "'c list \<Rightarrow> 'f list \<Rightarrow> 'f \<times> 'f \<Rightarrow> 'f \<Rightarrow> 'c"
  getInterpolatedOpacity :: "'f list \<Rightarrow> 'f list \<Rightarrow> 'f \<times> 'f \<Rightarrow> 'f \<Rightarrow> 'f"
  sample_position :: "nat \<Rightarrow> nat \<Rightarrow> 'f"
  field_isValid :: "nat \<Rightarrow> bool"

text \<open>
  The object: its parameters, the table \<open>m_tf\<close>, whether a texture object exists, whether
  the maximal opacities of the field's grid were computed, and the messages reported.
\<close>

record ('c, 'f) TransferFunction1D =
  m_params :: "('c, 'f) TFParams"
  m_tf :: "('c \<times> 'f) list"
  m_textureObject :: bool
  maxOpacitiesComputed :: bool
  tf_messages :: "(ANARIStatusSeverity \<times> string) list"

definition tf_reportMessage ::
  "ANARIStatusSeverity \<Rightarrow> string \<Rightarrow> ('c, 'f) TransferFunction1D \<Rightarrow> ('c, 'f) TransferFunction1D"
  where
  "tf_reportMessage sev msg tf = tf\<lparr>tf_messages := tf_messages tf @ [(sev, msg)]\<rparr>"

text \<open>
  \<open>discritizeTFData\<close>. Both tests read \<open>m_params.colorPosition\<close>; the second span is made
  from \<open>m_params.opacityPosition\<close>, through the pointer whatever it is. \<open>sample_position i n\<close>
  is \<open>float(i) / (n - 1)\<close>.
\<close>

definition discritizeTFData ::
  "('c, 'f) TFHelpers \<Rightarrow> ('c, 'f) TFParams \<Rightarrow> fault + ('c \<times> 'f) list" where
  "discritizeTFData h p =
    (case params_color p of
       None \<Rightarrow> Inl (NullPointerDereference ''m_params.color'')
     | Some color \<Rightarrow>
    (case params_opacity p of
       None \<Rightarrow> Inl (NullPointerDereference ''m_params.opacity'')
     | Some opacities \<Rightarrow>
        let cPositions =
              (case params_colorPosition p of
                 Some cp \<Rightarrow> cp
               | None \<Rightarrow> generateLinearPositions h (length color) (params_valueRange p))
        in case (if params_colorPosition p \<noteq> None
                 then (case params_opacityPosition p of
                         Some op \<Rightarrow> Inr op
                       | None \<Rightarrow> Inl (NullPointerDereference ''m_params.opacityPosition''))
                 else Inr (generateLinearPositions h (length opacities) (params_valueRange p)))
           of Inl e \<Rightarrow> Inl e
            | Inr oPositions \<Rightarrow>
                Inr (map (\<lambda>i.
                       (getInterpolatedColor h color cPositions (params_valueRange p)
                          (sample_position h i (m_tfDim h)),
                        getInterpolatedOpacity h opacities oPositions (params_valueRange p)
                          (sample_position h i (m_tfDim h))))
                     [0 ..< m_tfDim h])))"

text \<open>\<open>cleanup\<close>: the texture object and the array are destroyed (observers are not modelled).\<close>

definition tf_cleanup :: "('c, 'f) TransferFunction1D \<Rightarrow> ('c, 'f) TransferFunction1D" where
  "tf_cleanup tf = tf\<lparr>m_textureObject := False\<rparr>"

text \<open>
  \<open>TransferFunction1D::commit\<close>, given the parameters set on the object. Each failed check
  reports and returns; after the checks the table is built, the texture created and, for
  a valid field, the maximal opacities computed.
\<close>

definition tf_commit ::
  "('c, 'f) TFHelpers \<Rightarrow> ('c, 'f) TFParams \<Rightarrow> ('c, 'f) TransferFunction1D
     \<Rightarrow> fault + ('c, 'f) TransferFunction1D" where
  "tf_commit h p tf0 =
    (let tf = (tf_cleanup tf0)\<lparr>m_params := p\<rparr>
     in case params_field p of
          None \<Rightarrow> Inr (tf_reportMessage ANARI_SEVERITY_WARNING
                        ''missing parameter 'field' on transferFunction1D ANARIVolume'' tf)
        | Some field \<Rightarrow>
       (case params_color p of
          None \<Rightarrow> Inr (tf_reportMessage ANARI_SEVERITY_WARNING
                        ''missing parameter 'color' on transferFunction1D ANARIVolume'' tf)
        | Some color \<Rightarrow>
       (case params_opacity p of
          None \<Rightarrow> Inr (tf_reportMessage ANARI_SEVERITY_WARNING
                        ''missing parameter 'opacity' on transferFunction1D ANARIVolume'' tf)
        | Some opacities \<Rightarrow>
          if (case params_colorPosition p of
                Some cp \<Rightarrow> length color \<noteq> length cp | None \<Rightarrow> False)
          then Inr (tf_reportMessage ANARI_SEVERITY_ERROR
                      (''TransferFunction1D 'color' and 'color.position' ''
                       @ ''arrays are of different size'') tf)
          else if (case params_opacityPosition p of
                     Some op \<Rightarrow> length opacities \<noteq> length op | None \<Rightarrow> False)
          then Inr (tf_reportMessage ANARI_SEVERITY_ERROR
                      (''TransferFunction1D 'opacity' and 'opacity.position' ''
                       @ ''arrays are of different size'') tf)
          else (case discritizeTFData h p of
                  Inl e \<Rightarrow> Inl e
                | Inr table \<Rightarrow>
                    Inr (tf\<lparr>m_tf := table, m_textureObject := True,
                            maxOpacitiesComputed := field_isValid h field\<rparr>)))))"

text \<open>
  The parameter checks of \<open>commit\<close> pass: field, colour and opacity are set and each
  position array that is set has the size of its value array.
\<close>

definition tf_checks_pass :: "('c, 'f) TFParams \<Rightarrow> bool" where
  "tf_checks_pass p =
    (case (params_field p, params_color p, params_opacity p) of
       (Some field, Some color, Some opacities) \<Rightarrow>
         (case params_colorPosition p of Some cp \<Rightarrow> length color = length cp | None \<Rightarrow> True)
         \<and> (case params_opacityPosition p of
               Some op \<Rightarrow> length opacities = length op | None \<Rightarrow> True)
     | _ \<Rightarrow> False)"

section \<open>Concrete objects for the worked instances\<close>

text \<open>
  Single-precision values read as reals and buffer contents as the number of launches
  that wrote them; a renderer, a device state with given flush counters, and a frame
  object with renderer 0, camera 0 and world 0 set as parameters, before its first commit.
\<close>

definition example_gpu :: "(real, nat) gpu" where
  "example_gpu =
    \<lparr>f_one = 1, f_of_int = real_of_int, f_div = (\<lambda>a b. a / b),
     resize = (\<lambda>b n m. m), launch = (\<lambda>d w h m. Suc m), denoiser_launch = (\<lambda>m. m),
     download = (\<lambda>b m. m), scale_copy = (\<lambda>a d h s m. m)\<rparr>"

definition example_renderer :: "bool \<Rightarrow> int32 \<Rightarrow> Renderer" where
  "example_renderer cb limit =
    \<lparr>renderer_isValid = True, renderer_denoise = False, renderer_sampleLimit = limit,
     renderer_spp = 1, renderer_checkerboarding = cb\<rparr>"

definition example_state :: "bool \<Rightarrow> int32 \<Rightarrow> nat \<Rightarrow> nat \<Rightarrow> DeviceGlobalState" where
  "example_state cb limit c u =
    \<lparr>renderers = (\<lambda>r. example_renderer cb limit), camera_isValid = (\<lambda>c. True),
     world_isValid = (\<lambda>w. True), commitBufferLastFlush = c, uploadBufferLastFlush = u\<rparr>"

definition example_params :: FrameParams where
  "example_params =
    \<lparr>param_renderer = Some 0, param_camera = Some 0, param_world = Some 0,
     param_channel = Map.empty, param_size = Some (4, 4)\<rparr>"

definition example_frame :: "(real, nat) Frame" where
  "example_frame =
    \<lparr>params = example_params,
     m_renderer = None, m_camera = None, m_world = None,
     m_valid = False, m_denoise = False,
     m_colorType = ANARI_UNKNOWN, m_depthType = ANARI_UNKNOWN,
     m_primIDType = ANARI_UNKNOWN, m_objIDType = ANARI_UNKNOWN,
     m_instIDType = ANARI_UNKNOWN, m_albedoType = ANARI_UNKNOWN,
     m_normalType = ANARI_UNKNOWN, m_perPixelBytes = 1,
     fb = \<lparr>buffers = \<lparr>colorAccumulation = None, outColorVec4 = None, outColorUint = None,
                        depth = None, primID = None, objID = None, instID = None,
                        albedo = None, normal = None\<rparr>,
           frameID = 0, checkerboardID = - 1, invFrameID = 1, format = UNKNOWN,
           size_fb = (0, 0), invSize = (0, 0)\<rparr>,
     hd_scene = None, m_invFrameID = 1, m_nextFrameReset = True,
     m_lastCommitOccured = 0, m_lastUploadOccured = 0,
     m_frameChanged = True, m_frameMappedOnce = False,
     memory = 0, events = []\<rparr>"


text \<open>A frame in the middle of an accumulation, at a given count and checkerboard phase.\<close>

definition accumulating_frame :: "int32 \<Rightarrow> int32 \<Rightarrow> (real, nat) Frame" where
  "accumulating_frame n phase =
    example_frame\<lparr>m_renderer := Some 0, m_camera := Some 0, m_world := Some 0,
                  m_valid := True, m_nextFrameReset := False,
                  m_lastCommitOccured := 5, m_lastUploadOccured := 5,
                  fb := (fb example_frame)\<lparr>frameID := n, checkerboardID := phase\<rparr>\<rparr>"

text \<open>A frame that asks for the primitive id channel only, and one with no world set.\<close>

definition primid_only_frame :: "(real, nat) Frame" where
  "primid_only_frame =
    example_frame\<lparr>params :=
      example_params\<lparr>param_channel := [''channel.primitiveId'' \<mapsto> ANARI_UINT32]\<rparr>\<rparr>"

definition worldless_frame :: "(real, nat) Frame" where
  "worldless_frame = example_frame\<lparr>params := example_params\<lparr>param_world := None\<rparr>\<rparr>"

text \<open>Material 0 is half transparent, every other material fully opaque.\<close>

definition example_materials :: "nat \<Rightarrow> MaterialValues" where
  "example_materials m = \<lparr>baseColor = (1, 1, 1), opacity = (if m = 0 then 1 / 2 else 1)\<rparr>"

definition example_ray :: Ray where
  "example_ray = \<lparr>org = (0, 0, 0), dir = (0, 0, 1), t_lower = 0, t_upper = 10\<rparr>"

text \<open>
  The stack with one volume in front of it or between its surfaces: the march of a
  segment that contains the distance \<open>d\<close> finds its first sample there, of object 7 in
  instance 9; any other segment is empty.
\<close>

definition volume_scene :: "real \<Rightarrow> SurfaceHit list \<Rightarrow> unit FrameData" where
  "volume_scene d surfaces =
    (stack_scene surfaces example_materials)\<lparr>rayMarchAllVolumes :=
      (\<lambda>s r tfar c a oid iid.
         if t_lower r \<le> d \<and> d < tfar
         then (\<lparr>vm_depth = d, vm_color = c, vm_opacity = 1 / 4, vm_objID = 7, vm_instID = 9\<rparr>, s)
         else (\<lparr>vm_depth = tfar, vm_color = c, vm_opacity = a, vm_objID = oid,
                vm_instID = iid\<rparr>, s))\<rparr>"

text \<open>
  A transfer function of four entries over reals, with stand-ins for the interpolation
  helpers, and parameters that set \<open>color.position\<close> but not \<open>opacity.position\<close>.
\<close>

definition example_helpers :: "(vec3, real) TFHelpers" where
  "example_helpers =
    \<lparr>m_tfDim = 4,
     generateLinearPositions =
       (\<lambda>n r. map (\<lambda>i. fst r + (snd r - fst r) * real i / real (n - 1)) [0 ..< n]),
     getInterpolatedColor = (\<lambda>vs ps r x. (case vs of [] \<Rightarrow> (0, 0, 0) | v # _ \<Rightarrow> v)),
     getInterpolatedOpacity = (\<lambda>vs ps r x. (case vs of [] \<Rightarrow> 0 | v # _ \<Rightarrow> v)),
     sample_position = (\<lambda>i n. real i / real (n - 1)),
     field_isValid = (\<lambda>f. True)\<rparr>"

definition example_tf_params :: "(vec3, real) TFParams" where
  "example_tf_params =
    \<lparr>params_color = Some [(0, 0, 1), (1, 0, 0)],
     params_colorPosition = Some [0, 1],
     params_opacity = Some [0, 1],
     params_opacityPosition = None,
     params_densityScale = 1,
     params_field = Some 0,
     params_valueRange = (0, 1)\<rparr>"

definition example_tf :: "(vec3, real) TransferFunction1D" where
  "example_tf =
    \<lparr>m_params = example_tf_params\<lparr>params_color := None, params_colorPosition := None,
                                   params_opacity := None, params_field := None\<rparr>,
     m_tf = [], m_textureObject = False, maxOpacitiesComputed = False, tf_messages = []\<rparr>"



text \<open>
  The stack lit by one light, at distance 1 from every shade point, with volumes that each
  absorb half of what reaches them. A shadow ray meets the surfaces and the volumes whose
  distance lies in its interval.
\<close>

definition lit_scene :: "SurfaceHit list \<Rightarrow> VolumeHit list \<Rightarrow> unit FrameData" where
  "lit_scene surfaces volumes =
    (stack_scene surfaces example_materials)\<lparr>
       lightInstances := [[0]],
       rayMarchVolume := (\<lambda>s v a. (a + (1 - a) / 2, s)),
       shadow_volumes :=
         (\<lambda>r. filter (\<lambda>v. t_lower r \<le> vhit_t v \<and> vhit_t v \<le> t_upper r) volumes)\<rparr>"

definition volume_at :: "real \<Rightarrow> VolumeHit" where
  "volume_at d = \<lparr>vhit_t = d, vhit_volume = 0\<rparr>"

section \<open>Properties of the frame state machine\<close>



lemma commit_objects_keeps:
  "fb (commit_objects state f) = fb f"
  "m_invFrameID (commit_objects state f) = m_invFrameID f"
  "m_nextFrameReset (commit_objects state f) = m_nextFrameReset f"
  "m_lastCommitOccured (commit_objects state f) = m_lastCommitOccured f"
  "m_lastUploadOccured (commit_objects state f) = m_lastUploadOccured f"
  "m_denoise (commit_objects state f) = m_denoise f"
  "params (commit_objects state f) = params f"
  "m_renderer (commit_objects state f) = param_renderer (params f)"
  "m_camera (commit_objects state f) = param_camera (params f)"
  "m_world (commit_objects state f) = param_world (params f)"
  by (simp_all add: commit_objects_def Let_def reportMessage_def)

lemma commit_buffers_keeps:
  "frameID (fb (commit_buffers g f)) = frameID (fb f)"
  "checkerboardID (fb (commit_buffers g f)) = checkerboardID (fb f)"
  "invFrameID (fb (commit_buffers g f)) = invFrameID (fb f)"
  "m_invFrameID (commit_buffers g f) = m_invFrameID f"
  "m_nextFrameReset (commit_buffers g f) = m_nextFrameReset f"
  "m_lastCommitOccured (commit_buffers g f) = m_lastCommitOccured f"
  "m_lastUploadOccured (commit_buffers g f) = m_lastUploadOccured f"
  "m_denoise (commit_buffers g f) = m_denoise f"
  "params (commit_buffers g f) = params f"
  "m_renderer (commit_buffers g f) = m_renderer f"
  "m_camera (commit_buffers g f) = m_camera f"
  "m_world (commit_buffers g f) = m_world f"
  "m_valid (commit_buffers g f) = m_valid f"
  by (simp_all add: commit_buffers_def Let_def emit_def resize_to_def)

lemma commit_keeps:
  "frameID (fb (commit g state f)) = frameID (fb f)"
  "checkerboardID (fb (commit g state f)) = checkerboardID (fb f)"
  "invFrameID (fb (commit g state f)) = invFrameID (fb f)"
  "m_invFrameID (commit g state f) = m_invFrameID f"
  "m_nextFrameReset (commit g state f) = m_nextFrameReset f"
  "m_lastCommitOccured (commit g state f) = m_lastCommitOccured f"
  "m_lastUploadOccured (commit g state f) = m_lastUploadOccured f"
  "m_denoise (commit g state f) = m_denoise f"
  "params (commit g state f) = params f"
  "m_renderer (commit g state f) = param_renderer (params f)"
  "m_camera (commit g state f) = param_camera (params f)"
  "m_world (commit g state f) = param_world (params f)"
  by (simp_all add: commit_def Let_def commit_objects_keeps commit_buffers_keeps)

lemma commit_valid:
  "m_valid (commit g state f) =
     ((case param_renderer (params f) of
               Some r \<Rightarrow> renderer_isValid (renderers state r) | None \<Rightarrow> False)
            \<and> (case param_camera (params f) of Some c \<Rightarrow> camera_isValid state c | None \<Rightarrow> False)
            \<and> (case param_world (params f) of Some w \<Rightarrow> world_isValid state w | None \<Rightarrow> False))"
proof -
  have "m_valid (commit_objects state f) = 
     ((case param_renderer (params f) of
               Some r \<Rightarrow> renderer_isValid (renderers state r) | None \<Rightarrow> False)
            \<and> (case param_camera (params f) of Some c \<Rightarrow> camera_isValid state c | None \<Rightarrow> False)
            \<and> (case param_world (params f) of Some w \<Rightarrow> world_isValid state w | None \<Rightarrow> False))"
    by (simp add: commit_objects_def Let_def reportMessage_def)
  then show ?thesis
    by (simp add: commit_def Let_def commit_buffers_keeps)
qed


lemma checkAccumulationReset_keeps:
  "fb (checkAccumulationReset state f) = fb f"
  "params (checkAccumulationReset state f) = params f"
  "m_renderer (checkAccumulationReset state f) = m_renderer f"
  "m_camera (checkAccumulationReset state f) = m_camera f"
  "m_world (checkAccumulationReset state f) = m_world f"
  "m_valid (checkAccumulationReset state f) = m_valid f"
  "m_denoise (checkAccumulationReset state f) = m_denoise f"
  "events (checkAccumulationReset state f) = events f"
  "memory (checkAccumulationReset state f) = memory f"
  by (simp_all add: checkAccumulationReset_def Let_def)

lemma checkAccumulationReset_flag:
  "m_nextFrameReset (checkAccumulationReset state f) = reset_pending state f"
  by (auto simp add: checkAccumulationReset_def reset_pending_def Let_def)

lemma checkAccumulationReset_caches:
  "m_lastCommitOccured (checkAccumulationReset state f)
     = (if m_nextFrameReset f then m_lastCommitOccured f
        else max (m_lastCommitOccured f) (commitBufferLastFlush state))"
  "m_lastUploadOccured (checkAccumulationReset state f)
     = (if m_nextFrameReset f then m_lastUploadOccured f
        else max (m_lastUploadOccured f) (uploadBufferLastFlush state))"
  by (auto simp add: checkAccumulationReset_def Let_def)

lemma frame_setup_keeps:
  assumes "bound_to f r c w" "objects_valid state r c w"
  shows "bound_to (frame_setup g state r f) r c w"
    and "frameID (fb (frame_setup g state r f)) = frameID (fb f)"
    and "checkerboardID (fb (frame_setup g state r f)) = checkerboardID (fb f)"
    and "m_nextFrameReset (frame_setup g state r f) = reset_pending state f"
    and "m_lastCommitOccured (frame_setup g state r f)
           = (if m_nextFrameReset f then m_lastCommitOccured f
              else max (m_lastCommitOccured f) (commitBufferLastFlush state))"
    and "m_lastUploadOccured (frame_setup g state r f)
           = (if m_nextFrameReset f then m_lastUploadOccured f
              else max (m_lastUploadOccured f) (uploadBufferLastFlush state))"
    and "m_denoise (frame_setup g state r f) = renderer_denoise (renderers state r)"
  using assms
  by (simp_all add: frame_setup_def bound_to_def objects_valid_def
        checkAccumulationReset_keeps checkAccumulationReset_flag checkAccumulationReset_caches
        commit_keeps commit_valid reset_pending_def)

lemma renderFrame_unfold:
  assumes "bound_to f r c w" "objects_valid state r c w"
  shows "renderFrame g state f =
    (let f4 = frame_setup g state r f;
         sampleLimit = renderer_sampleLimit (renderers state r)
     in if \<not> m_nextFrameReset f4 \<and> 0 <s sampleLimit \<and> sampleLimit \<le>s frameID (fb f4)
        then Inr f4
        else
          let f6 = (emit EventRecordStart f4)\<lparr>hd_scene := Some (r, c, w)\<rparr>;
              spp = (if renderer_spp (renderers state r) <s 1
                     then 1 else renderer_spp (renderers state r));
              f7 = render_samples (nat (sint spp)) g state f6;
              f8 = (if m_denoise f7
                    then (emit DenoiserLaunch f7)\<lparr>memory := denoiser_launch g (memory f7)\<rparr>
                    else f7)
          in Inr (emit EventRecordEnd f8))"
proof -
  have b: "bound_to (frame_setup g state r f) r c w"
    using assms by (rule frame_setup_keeps)
  have p: "m_world f = Some w" "isValid f" "m_renderer f = Some r"
    using assms(1) by (simp_all add: bound_to_def isValid_def)
  have q: "m_renderer (frame_setup g state r f) = Some r"
      "m_camera (frame_setup g state r f) = Some c"
      "m_world (frame_setup g state r f) = Some w"
    using b by (simp_all add: bound_to_def)
  have e: "m_camera (emit EventRecordStart (frame_setup g state r f)) = Some c"
      "m_world (emit EventRecordStart (frame_setup g state r f)) = Some w"
    using q by (simp_all add: emit_def)
  show ?thesis
    using p q e unfolding renderFrame_def frame_setup_def
    by (simp add: Let_def cong: if_cong)
qed

lemma newFrame_keeps:
  "params (newFrame g state f) = params f"
  "m_renderer (newFrame g state f) = m_renderer f"
  "m_camera (newFrame g state f) = m_camera f"
  "m_world (newFrame g state f) = m_world f"
  "m_valid (newFrame g state f) = m_valid f"
  "m_denoise (newFrame g state f) = m_denoise f"
  "m_lastCommitOccured (newFrame g state f) = m_lastCommitOccured f"
  "m_lastUploadOccured (newFrame g state f) = m_lastUploadOccured f"
  "events (newFrame g state f) = events f"
  "memory (newFrame g state f) = memory f"
  "size_fb (fb (newFrame g state f)) = size_fb (fb f)"
  "\<not> m_nextFrameReset (newFrame g state f)"
  by (simp_all add: newFrame_def Let_def)

lemma newFrame_frameID:
  "frameID (fb (newFrame g state f)) =
     (if m_nextFrameReset f then 0
      else frameID (fb f)
             + (if \<not> checkerboarding state f \<or> checkerboardID (fb f) = 3 then 1 else 0))"
  by (simp add: newFrame_def Let_def)

lemma render_samples_one:
  assumes "\<not> checkerboarding state f"
  shows "render_samples (Suc 0) g state f =
    (newFrame g state f)\<lparr>
       events := events f
         @ [Upload, OptixLaunch (fst (size_fb (fb (newFrame g state f))))
                                (snd (size_fb (fb (newFrame g state f))))],
       memory := launch g (fb (newFrame g state f))
                   (fst (size_fb (fb (newFrame g state f))))
                   (snd (size_fb (fb (newFrame g state f)))) (memory f)\<rparr>"
proof -
  have "\<not> checkerboarding state (emit Upload (newFrame g state f))"
    using assms by (simp add: checkerboarding_def emit_def newFrame_keeps)
  then show ?thesis
    by (simp add: Let_def emit_def newFrame_keeps)
qed

lemma spp_one:
  "(s::32 word) \<le>s 1 \<Longrightarrow> nat (sint (if s <s 1 then 1 else s)) = Suc 0"
  by (auto simp add: word_sle_eq word_sless_alt)

lemma renderFrame_single_sample:
  assumes b: "bound_to f r c w" and v: "objects_valid state r c w"
    and spp: "renderer_spp (renderers state r) \<le>s 1"
    and cb: "\<not> renderer_checkerboarding (renderers state r)"
  shows "\<exists>f'. renderFrame g state f = Inr f' \<and> bound_to f' r c w
     \<and> \<not> m_nextFrameReset f'
     \<and> m_lastCommitOccured f'
         = (if m_nextFrameReset f then m_lastCommitOccured f
            else max (m_lastCommitOccured f) (commitBufferLastFlush state))
     \<and> m_lastUploadOccured f'
         = (if m_nextFrameReset f then m_lastUploadOccured f
            else max (m_lastUploadOccured f) (uploadBufferLastFlush state))
     \<and> (reset_pending state f \<longrightarrow>
          frameID (fb f') = 0
          \<and> (\<exists>m. memory f' =
                (if m_denoise f' then denoiser_launch g else id)
                  (launch g (fb f') (fst (size_fb (fb f'))) (snd (size_fb (fb f'))) m)))
     \<and> (\<not> reset_pending state f \<longrightarrow>
          frameID (fb f') =
            (if 0 <s renderer_sampleLimit (renderers state r)
                \<and> renderer_sampleLimit (renderers state r) \<le>s frameID (fb f)
             then frameID (fb f) else frameID (fb f) + 1))"
proof -
  define f4 where "f4 = frame_setup g state r f"
  define f6 where "f6 = (emit EventRecordStart f4)\<lparr>hd_scene := Some (r, c, w)\<rparr>"
  define f7 where "f7 = render_samples (Suc 0) g state f6"
  define f8 where "f8 = (if m_denoise f7
                    then (emit DenoiserLaunch f7)\<lparr>memory := denoiser_launch g (memory f7)\<rparr>
                    else f7)"
  note k = frame_setup_keeps [OF b v, of g, folded f4_def]
  have b4: "bound_to f4 r c w" by (rule k(1))
  have b6: "bound_to f6 r c w" using b4 by (simp add: f6_def bound_to_def emit_def)
  have cb6: "\<not> checkerboarding state f6"
    using b6 cb by (simp add: checkerboarding_def bound_to_def)
  have f6k: "frameID (fb f6) = frameID (fb f)" "m_nextFrameReset f6 = reset_pending state f"
    "m_lastCommitOccured f6 = m_lastCommitOccured f4"
    "m_lastUploadOccured f6 = m_lastUploadOccured f4"
    using k by (simp_all add: f6_def emit_def)
  have f7eq: "f7 = (newFrame g state f6)\<lparr>
       events := events f6
         @ [Upload, OptixLaunch (fst (size_fb (fb (newFrame g state f6))))
                                (snd (size_fb (fb (newFrame g state f6))))],
       memory := launch g (fb (newFrame g state f6))
                   (fst (size_fb (fb (newFrame g state f6))))
                   (snd (size_fb (fb (newFrame g state f6)))) (memory f6)\<rparr>"
    unfolding f7_def using cb6 by (rule render_samples_one)
  have b7: "bound_to f7 r c w"
    using b6 by (simp add: f7eq bound_to_def newFrame_keeps)
  have f7k: "\<not> m_nextFrameReset f7"
    "m_lastCommitOccured f7 = m_lastCommitOccured f4"
    "m_lastUploadOccured f7 = m_lastUploadOccured f4"
    "frameID (fb f7) = (if reset_pending state f then 0 else frameID (fb f) + 1)"
    "memory f7 = launch g (fb f7) (fst (size_fb (fb f7))) (snd (size_fb (fb f7))) (memory f6)"
    using f6k cb6 by (simp_all add: f7eq newFrame_keeps newFrame_frameID)
  have b8: "bound_to f8 r c w"
    using b7 by (simp add: f8_def bound_to_def emit_def)
  have f8k: "\<not> m_nextFrameReset f8"
    "m_lastCommitOccured f8 = m_lastCommitOccured f4"
    "m_lastUploadOccured f8 = m_lastUploadOccured f4"
    "frameID (fb f8) = (if reset_pending state f then 0 else frameID (fb f) + 1)"
    "fb f8 = fb f7" "m_denoise f8 = m_denoise f7"
    "memory f8 = (if m_denoise f7 then denoiser_launch g else id) (memory f7)"
    using f7k by (simp_all add: f8_def emit_def)
  have r: "renderFrame g state f =
     (if \<not> m_nextFrameReset f4 \<and> 0 <s renderer_sampleLimit (renderers state r)
          \<and> renderer_sampleLimit (renderers state r) \<le>s frameID (fb f4)
      then Inr f4 else Inr (emit EventRecordEnd f8))"
    unfolding renderFrame_unfold [OF b v] Let_def f8_def f7_def f6_def f4_def
    using spp by (simp only: spp_one)
  show ?thesis
  proof (cases "\<not> m_nextFrameReset f4 \<and> 0 <s renderer_sampleLimit (renderers state r)
          \<and> renderer_sampleLimit (renderers state r) \<le>s frameID (fb f4)")
    case True
    then have "renderFrame g state f = Inr f4" unfolding r by (rule if_P)
    moreover have "\<not> reset_pending state f" using True k by simp
    ultimately show ?thesis using b4 True k by auto
  next
    case False
    then have e: "renderFrame g state f = Inr (emit EventRecordEnd f8)"
      unfolding r by (rule if_not_P)
    have "bound_to (emit EventRecordEnd f8) r c w"
      using b8 by (simp add: bound_to_def emit_def)
    moreover have "memory (emit EventRecordEnd f8) =
       (if m_denoise (emit EventRecordEnd f8) then denoiser_launch g else id)
         (launch g (fb (emit EventRecordEnd f8))
            (fst (size_fb (fb (emit EventRecordEnd f8))))
            (snd (size_fb (fb (emit EventRecordEnd f8)))) (memory f6))"
      using f8k f7k by (simp add: emit_def)
    ultimately show ?thesis
      using e f8k k False by (auto simp add: emit_def)
  qed
qed


lemma and3_cases: "(x::32 word) AND 3 = 0 \<or> x AND 3 = 1 \<or> x AND 3 = 2 \<or> x AND 3 = 3"
proof -
  have "x AND 3 \<le> 3" by (rule word_and_le1)
  then have "unat (x AND 3) \<le> 3" by (simp add: word_le_nat_alt)
  then have "unat (x AND 3) = 0 \<or> unat (x AND 3) = 1 \<or> unat (x AND 3) = 2 \<or> unat (x AND 3) = 3"
    by arith
  then show ?thesis by (simp add: word_unat_eq_iff)
qed

lemma checkerboarding_newFrame:
  "checkerboarding state (newFrame g state f) = checkerboarding state f"
  by (simp add: checkerboarding_def newFrame_def Let_def)

lemma newFrame_reset:
  "m_nextFrameReset f \<Longrightarrow>
     frameID (fb (newFrame g state f)) = 0
   \<and> checkerboardID (fb (newFrame g state f)) = (if checkerboarding state f then 0 else - 1)
   \<and> \<not> m_nextFrameReset (newFrame g state f)"
  by (simp add: newFrame_def Let_def)

lemma newFrame_accum:
  "\<not> m_nextFrameReset f \<Longrightarrow>
     frameID (fb (newFrame g state f))
       = frameID (fb f) + (if \<not> checkerboarding state f \<or> checkerboardID (fb f) = 3 then 1 else 0)
   \<and> checkerboardID (fb (newFrame g state f))
       = (if checkerboarding state f then (checkerboardID (fb f) + 1) AND 3 else - 1)
   \<and> \<not> m_nextFrameReset (newFrame g state f)"
  by (simp add: newFrame_def Let_def)

text \<open>
  Claim C9. After every \<open>newFrame\<close>, resetting or accumulating, the inverse count stored in
  the frame data and its host copy \<open>m_invFrameID\<close> are \<open>1.f / (frameID + 1)\<close> for the
  \<open>frameID\<close> this transition has just established: the single-precision quotient of one by
  the conversion of the 32-bit sum.
\<close>

theorem newFrame_invFrameID:
  "invFrameID (fb (newFrame g state f))
     = f_div g (f_one g) (f_of_int g (sint (frameID (fb (newFrame g state f)) + 1)))
   \<and> m_invFrameID (newFrame g state f) = invFrameID (fb (newFrame g state f))"
  by (simp add: newFrame_def Let_def)

text \<open>
  Claim C2. While accumulating with checkerboarding enabled, \<open>newFrame\<close> takes the phase to
  \<open>(checkerboardID + 1) & 3\<close>, which is one of 0, 1, 2, 3 and steps 0, 1, 2, 3, 0, and it
  increments \<open>frameID\<close> exactly when the phase was 3 and wraps to 0. With checkerboarding
  disabled every accumulating call increments \<open>frameID\<close> and leaves the phase at the sentinel
  \<open>-1\<close>. A resetting call sets \<open>frameID\<close> to 0 and the phase to 0 (enabled) or the sentinel
  (disabled). From a pending reset with checkerboarding enabled, five calls give the phases
  0, 1, 2, 3, 0 and the counts 0, 0, 0, 0, 1.
\<close>

theorem newFrame_phase:
  "(\<not> m_nextFrameReset f \<and> checkerboarding state f \<longrightarrow>
      checkerboardID (fb (newFrame g state f)) = (checkerboardID (fb f) + 1) AND 3
    \<and> checkerboardID (fb (newFrame g state f)) \<in> {0, 1, 2, 3}
    \<and> (checkerboardID (fb f) = 0 \<longrightarrow> checkerboardID (fb (newFrame g state f)) = 1)
    \<and> (checkerboardID (fb f) = 1 \<longrightarrow> checkerboardID (fb (newFrame g state f)) = 2)
    \<and> (checkerboardID (fb f) = 2 \<longrightarrow> checkerboardID (fb (newFrame g state f)) = 3)
    \<and> (checkerboardID (fb f) = 3 \<longrightarrow> checkerboardID (fb (newFrame g state f)) = 0)
    \<and> (frameID (fb (newFrame g state f)) = frameID (fb f) + 1 \<longleftrightarrow> checkerboardID (fb f) = 3)
    \<and> (checkerboardID (fb f) \<noteq> 3 \<longrightarrow> frameID (fb (newFrame g state f)) = frameID (fb f)))
   \<and> (\<not> m_nextFrameReset f \<and> \<not> checkerboarding state f \<longrightarrow>
        frameID (fb (newFrame g state f)) = frameID (fb f) + 1
      \<and> checkerboardID (fb (newFrame g state f)) = - 1)
   \<and> (m_nextFrameReset f \<longrightarrow>
        frameID (fb (newFrame g state f)) = 0
      \<and> checkerboardID (fb (newFrame g state f)) = (if checkerboarding state f then 0 else - 1)
      \<and> \<not> m_nextFrameReset (newFrame g state f))
   \<and> (m_nextFrameReset f \<and> checkerboarding state f \<longrightarrow>
        (let f1 = newFrame g state f; f2 = newFrame g state f1; f3 = newFrame g state f2;
             f4 = newFrame g state f3; f5 = newFrame g state f4
         in map (\<lambda>x. (checkerboardID (fb x), frameID (fb x))) [f1, f2, f3, f4, f5]
              = [(0, 0), (1, 0), (2, 0), (3, 0), (0, 1)]))"
proof -
  have a: "\<not> m_nextFrameReset f \<and> checkerboarding state f \<longrightarrow>
      checkerboardID (fb (newFrame g state f)) = (checkerboardID (fb f) + 1) AND 3
    \<and> checkerboardID (fb (newFrame g state f)) \<in> {0, 1, 2, 3}
    \<and> (checkerboardID (fb f) = 0 \<longrightarrow> checkerboardID (fb (newFrame g state f)) = 1)
    \<and> (checkerboardID (fb f) = 1 \<longrightarrow> checkerboardID (fb (newFrame g state f)) = 2)
    \<and> (checkerboardID (fb f) = 2 \<longrightarrow> checkerboardID (fb (newFrame g state f)) = 3)
    \<and> (checkerboardID (fb f) = 3 \<longrightarrow> checkerboardID (fb (newFrame g state f)) = 0)
    \<and> (frameID (fb (newFrame g state f)) = frameID (fb f) + 1 \<longleftrightarrow> checkerboardID (fb f) = 3)
    \<and> (checkerboardID (fb f) \<noteq> 3 \<longrightarrow> frameID (fb (newFrame g state f)) = frameID (fb f))"
    using and3_cases [of "checkerboardID (fb f) + 1"] newFrame_accum [of f g state]
    by auto
  have b: "\<not> m_nextFrameReset f \<and> \<not> checkerboarding state f \<longrightarrow>
        frameID (fb (newFrame g state f)) = frameID (fb f) + 1
      \<and> checkerboardID (fb (newFrame g state f)) = - 1"
    using newFrame_accum [of f g state] by simp
  have c: "m_nextFrameReset f \<longrightarrow>
        frameID (fb (newFrame g state f)) = 0
      \<and> checkerboardID (fb (newFrame g state f)) = (if checkerboarding state f then 0 else - 1)
      \<and> \<not> m_nextFrameReset (newFrame g state f)"
    using newFrame_reset [of f g state] by simp
  have d: "m_nextFrameReset f \<and> checkerboarding state f \<longrightarrow>
        (let f1 = newFrame g state f; f2 = newFrame g state f1; f3 = newFrame g state f2;
             f4 = newFrame g state f3; f5 = newFrame g state f4
         in map (\<lambda>x. (checkerboardID (fb x), frameID (fb x))) [f1, f2, f3, f4, f5]
              = [(0, 0), (1, 0), (2, 0), (3, 0), (0, 1)])"
  proof
    assume h: "m_nextFrameReset f \<and> checkerboarding state f"
    define f1 where "f1 = newFrame g state f"
    define f2 where "f2 = newFrame g state f1"
    define f3 where "f3 = newFrame g state f2"
    define f4 where "f4 = newFrame g state f3"
    define f5 where "f5 = newFrame g state f4"
    have cb: "checkerboarding state f1" "checkerboarding state f2" "checkerboarding state f3"
      "checkerboarding state f4"
      using h by (simp_all add: f1_def f2_def f3_def f4_def checkerboarding_newFrame)
    have s1: "frameID (fb f1) = 0 \<and> checkerboardID (fb f1) = 0 \<and> \<not> m_nextFrameReset f1"
      using h newFrame_reset [of f g state] by (simp add: f1_def)
    have s2: "frameID (fb f2) = 0 \<and> checkerboardID (fb f2) = 1 \<and> \<not> m_nextFrameReset f2"
      using s1 cb newFrame_accum [of f1 g state] by (simp add: f2_def)
    have s3: "frameID (fb f3) = 0 \<and> checkerboardID (fb f3) = 2 \<and> \<not> m_nextFrameReset f3"
      using s2 cb newFrame_accum [of f2 g state] by (simp add: f3_def)
    have s4: "frameID (fb f4) = 0 \<and> checkerboardID (fb f4) = 3 \<and> \<not> m_nextFrameReset f4"
      using s3 cb newFrame_accum [of f3 g state] by (simp add: f4_def)
    have s5: "frameID (fb f5) = 1 \<and> checkerboardID (fb f5) = 0 \<and> \<not> m_nextFrameReset f5"
      using s4 cb newFrame_accum [of f4 g state] by (simp add: f5_def)
    show "(let f1 = newFrame g state f; f2 = newFrame g state f1; f3 = newFrame g state f2;
             f4 = newFrame g state f3; f5 = newFrame g state f4
         in map (\<lambda>x. (checkerboardID (fb x), frameID (fb x))) [f1, f2, f3, f4, f5]
              = [(0, 0), (1, 0), (2, 0), (3, 0), (0, 1)])"
      using s1 s2 s3 s4 s5 unfolding Let_def f1_def f2_def f3_def f4_def f5_def by simp
  qed
  from a b c d show ?thesis by blast
qed

theorem newFrame_phase_witness:
  "checkerboardID (fb (newFrame example_gpu (example_state True 0 5 5) (accumulating_frame 7 3))) = 0
   \<and> frameID (fb (newFrame example_gpu (example_state True 0 5 5) (accumulating_frame 7 3))) = 8
   \<and> checkerboardID (fb (newFrame example_gpu (example_state True 0 5 5) (accumulating_frame 7 1))) = 2
   \<and> frameID (fb (newFrame example_gpu (example_state True 0 5 5) (accumulating_frame 7 1))) = 7
   \<and> frameID (fb (newFrame example_gpu (example_state False 0 5 5) (accumulating_frame 7 (- 1)))) = 8
   \<and> checkerboardID
        (fb (newFrame example_gpu (example_state False 0 5 5) (accumulating_frame 7 (- 1)))) = - 1
   \<and> frameID (fb (newFrame example_gpu (example_state True 0 5 5)
         ((accumulating_frame 7 2)\<lparr>m_nextFrameReset := True\<rparr>))) = 0
   \<and> checkerboardID (fb (newFrame example_gpu (example_state True 0 5 5)
         ((accumulating_frame 7 2)\<lparr>m_nextFrameReset := True\<rparr>))) = 0"
proof -
  have cb: "checkerboarding (example_state True 0 5 5) (accumulating_frame n p)"
       "\<not> checkerboarding (example_state False 0 5 5) (accumulating_frame n p)"
       "checkerboarding (example_state True 0 5 5)
          ((accumulating_frame n p)\<lparr>m_nextFrameReset := True\<rparr>)" for n p
    by (simp_all add: checkerboarding_def example_state_def example_renderer_def
          accumulating_frame_def)
  have nr: "\<not> m_nextFrameReset (accumulating_frame n p)"
           "checkerboardID (fb (accumulating_frame n p)) = p"
           "frameID (fb (accumulating_frame n p)) = n" for n p
    by (simp_all add: accumulating_frame_def)
  show ?thesis
    using newFrame_phase [of "accumulating_frame 7 3" "example_state True 0 5 5" example_gpu]
      newFrame_phase [of "accumulating_frame 7 1" "example_state True 0 5 5" example_gpu]
      newFrame_phase [of "accumulating_frame 7 (- 1)" "example_state False 0 5 5" example_gpu]
      newFrame_phase [of "(accumulating_frame 7 2)\<lparr>m_nextFrameReset := True\<rparr>"
                         "example_state True 0 5 5" example_gpu]
    by (simp add: cb nr)
qed

theorem newFrame_invFrameID_witness:
  "invFrameID (fb (newFrame example_gpu (example_state False 0 5 5) (accumulating_frame 7 (- 1))))
     = 1 / 9
   \<and> m_invFrameID (newFrame example_gpu (example_state False 0 5 5)
        ((accumulating_frame 7 (- 1))\<lparr>m_nextFrameReset := True\<rparr>)) = 1"
proof -
  have a: "frameID (fb (newFrame g (example_state False 0 5 5)
             (accumulating_frame 7 (- 1)))) = 8" for g :: "(real, nat) gpu"
    by (simp add: newFrame_frameID accumulating_frame_def checkerboarding_def
          example_state_def example_renderer_def)
  have b: "frameID (fb (newFrame g (example_state False 0 5 5)
             ((accumulating_frame 7 (- 1))\<lparr>m_nextFrameReset := True\<rparr>))) = 0"
    for g :: "(real, nat) gpu"
    by (simp add: newFrame_frameID)
  show ?thesis
    using newFrame_invFrameID [of example_gpu "example_state False 0 5 5"
            "accumulating_frame 7 (- 1)"]
      newFrame_invFrameID [of example_gpu "example_state False 0 5 5"
            "(accumulating_frame 7 (- 1))\<lparr>m_nextFrameReset := True\<rparr>"]
    by (simp add: a b example_gpu_def)
qed

text \<open>
  Claim C1. Three successive \<open>renderFrame\<close> calls on a valid frame, one sample per pixel,
  checkerboarding disabled, the cached counters not ahead of the device's. When the commit
  flush counter or the upload flush counter advances between the first and the second call
  and neither moves before the third, the second call leaves \<open>frameID\<close> at 0 and the third
  at 1. The flag \<open>checkAccumulationReset\<close> computes in the second call is the comparison of
  the two counters with the cached values (no reset was left pending by the first call), and
  the launch of the second call is already given \<open>frameID = 0\<close>.
\<close>

theorem renderFrame_reset_after_flush:
  assumes b: "bound_to f0 r c w"
    and v: "objects_valid s0 r c w" "objects_valid s1 r c w" "objects_valid s2 r c w"
    and spp: "renderer_spp (renderers s0 r) \<le>s 1" "renderer_spp (renderers s1 r) \<le>s 1"
      "renderer_spp (renderers s2 r) \<le>s 1"
    and cb: "\<not> renderer_checkerboarding (renderers s0 r)"
      "\<not> renderer_checkerboarding (renderers s1 r)"
      "\<not> renderer_checkerboarding (renderers s2 r)"
    and cache: "m_lastCommitOccured f0 \<le> commitBufferLastFlush s0"
      "m_lastUploadOccured f0 \<le> uploadBufferLastFlush s0"
    and mono: "commitBufferLastFlush s0 \<le> commitBufferLastFlush s1"
      "uploadBufferLastFlush s0 \<le> uploadBufferLastFlush s1"
    and flush: "commitBufferLastFlush s0 < commitBufferLastFlush s1
                \<or> uploadBufferLastFlush s0 < uploadBufferLastFlush s1"
    and same: "commitBufferLastFlush s2 = commitBufferLastFlush s1"
      "uploadBufferLastFlush s2 = uploadBufferLastFlush s1"
  shows "\<exists>f1 f2 f3.
      renderFrame g s0 f0 = Inr f1
    \<and> renderFrame g s1 f1 = Inr f2
    \<and> renderFrame g s2 f2 = Inr f3
    \<and> m_nextFrameReset (checkAccumulationReset s1 f1)
    \<and> m_nextFrameReset (checkAccumulationReset s1 f1)
        = (m_nextFrameReset f1
           \<or> m_lastCommitOccured f1 < commitBufferLastFlush s1
           \<or> m_lastUploadOccured f1 < uploadBufferLastFlush s1)
    \<and> \<not> m_nextFrameReset f1
    \<and> frameID (fb f2) = 0
    \<and> (\<exists>m. memory f2 =
          (if m_denoise f2 then denoiser_launch g else id)
            (launch g (fb f2) (fst (size_fb (fb f2))) (snd (size_fb (fb f2))) m))
    \<and> frameID (fb f3) = 1"
proof -
  from renderFrame_single_sample [OF b v(1) spp(1) cb(1), of g]
  obtain f1 where f1: "renderFrame g s0 f0 = Inr f1" "bound_to f1 r c w"
    "\<not> m_nextFrameReset f1"
    "m_lastCommitOccured f1
         = (if m_nextFrameReset f0 then m_lastCommitOccured f0
            else max (m_lastCommitOccured f0) (commitBufferLastFlush s0))"
    "m_lastUploadOccured f1
         = (if m_nextFrameReset f0 then m_lastUploadOccured f0
            else max (m_lastUploadOccured f0) (uploadBufferLastFlush s0))"
    by blast
  have c1: "m_lastCommitOccured f1 \<le> commitBufferLastFlush s0"
    "m_lastUploadOccured f1 \<le> uploadBufferLastFlush s0"
    using f1(4,5) cache by (simp_all split: if_splits)
  have p1: "reset_pending s1 f1"
    using c1 flush by (auto simp add: reset_pending_def)
  from renderFrame_single_sample [OF f1(2) v(2) spp(2) cb(2), of g] p1
  obtain f2 where f2: "renderFrame g s1 f1 = Inr f2" "bound_to f2 r c w"
    "\<not> m_nextFrameReset f2"
    "m_lastCommitOccured f2 = max (m_lastCommitOccured f1) (commitBufferLastFlush s1)"
    "m_lastUploadOccured f2 = max (m_lastUploadOccured f1) (uploadBufferLastFlush s1)"
    "frameID (fb f2) = 0"
    "\<exists>m. memory f2 =
          (if m_denoise f2 then denoiser_launch g else id)
            (launch g (fb f2) (fst (size_fb (fb f2))) (snd (size_fb (fb f2))) m)"
    using f1(3) by auto
  have p2: "\<not> reset_pending s2 f2"
    using f2(3,4,5) same by (simp add: reset_pending_def)
  have nocap: "\<not> (0 <s renderer_sampleLimit (renderers s2 r)
                \<and> renderer_sampleLimit (renderers s2 r) \<le>s frameID (fb f2))"
    by (auto simp add: f2(6) word_sle_eq word_sless_alt)
  from renderFrame_single_sample [OF f2(2) v(3) spp(3) cb(3), of g] p2 nocap
  obtain f3 where f3: "renderFrame g s2 f2 = Inr f3" "frameID (fb f3) = 1"
    using f2(6) by auto
  have d: "m_nextFrameReset (checkAccumulationReset s1 f1)"
    using p1 by (simp add: checkAccumulationReset_flag)
  have e: "m_nextFrameReset (checkAccumulationReset s1 f1)
        = (m_nextFrameReset f1
           \<or> m_lastCommitOccured f1 < commitBufferLastFlush s1
           \<or> m_lastUploadOccured f1 < uploadBufferLastFlush s1)"
    by (simp add: checkAccumulationReset_flag reset_pending_def)
  show ?thesis
    using f1(1,3) f2(1,6,7) f3 d e by blast
qed

theorem renderFrame_reset_after_flush_witness:
  "\<exists>f1 f2 f3.
      renderFrame example_gpu (example_state False 0 5 5) (accumulating_frame 7 (- 1)) = Inr f1
    \<and> renderFrame example_gpu (example_state False 0 6 5) f1 = Inr f2
    \<and> renderFrame example_gpu (example_state False 0 6 5) f2 = Inr f3
    \<and> frameID (fb f2) = 0 \<and> frameID (fb f3) = 1"
proof -
  have b: "bound_to (accumulating_frame 7 (- 1)) 0 0 0"
    by (simp add: bound_to_def accumulating_frame_def example_frame_def example_params_def)
  have v: "objects_valid (example_state False 0 n m) 0 0 0" for n m
    by (simp add: objects_valid_def example_state_def example_renderer_def)
  have r: "renderer_spp (renderers (example_state False 0 n m) 0) \<le>s 1"
    "\<not> renderer_checkerboarding (renderers (example_state False 0 n m) 0)"
    "commitBufferLastFlush (example_state False 0 n m) = n"
    "uploadBufferLastFlush (example_state False 0 n m) = m" for n m
    by (simp_all add: example_state_def example_renderer_def)
  have c: "m_lastCommitOccured (accumulating_frame 7 (- 1)) = 5"
    "m_lastUploadOccured (accumulating_frame 7 (- 1)) = 5"
    by (simp_all add: accumulating_frame_def)
  show ?thesis
    using renderFrame_reset_after_flush [OF b v v v r(1) r(1) r(1) r(2) r(2) r(2),
        of 5 5 6 5 6 5 example_gpu]
    by (simp only: r c) auto
qed
















section \<open>Properties of commit and map\<close>


lemma commit_buffers_types:
  "m_colorType (commit_buffers g f) = getParam f ''channel.color'' ANARI_UFIXED8_RGBA_SRGB"
  "m_depthType (commit_buffers g f) =
     (if (getParam f ''channel.depth'' ANARI_UNKNOWN = ANARI_FLOAT32
          \<or> getParam f ''channel.primitiveId'' ANARI_UNKNOWN = ANARI_UINT32
          \<or> getParam f ''channel.objectId'' ANARI_UNKNOWN = ANARI_UINT32
          \<or> getParam f ''channel.instanceId'' ANARI_UNKNOWN = ANARI_UINT32)
      then ANARI_FLOAT32 else getParam f ''channel.depth'' ANARI_UNKNOWN)"
  "m_primIDType (commit_buffers g f) = getParam f ''channel.primitiveId'' ANARI_UNKNOWN"
  "m_objIDType (commit_buffers g f) = getParam f ''channel.objectId'' ANARI_UNKNOWN"
  "m_instIDType (commit_buffers g f) = getParam f ''channel.instanceId'' ANARI_UNKNOWN"
  "m_albedoType (commit_buffers g f) = getParam f ''channel.albedo'' ANARI_UNKNOWN"
  "m_normalType (commit_buffers g f) = getParam f ''channel.normal'' ANARI_UNKNOWN"
  by (simp_all add: commit_buffers_def Let_def emit_def resize_to_def)

lemma getParam_commit_objects:
  "getParam (commit_objects state f) n d = getParam f n d"
  by (simp add: getParam_def commit_objects_keeps)

lemma commit_types:
  assumes "m_valid (commit g state f)"
  shows "m_colorType (commit g state f) = getParam f ''channel.color'' ANARI_UFIXED8_RGBA_SRGB"
  "m_depthType (commit g state f) =
     (if (getParam f ''channel.depth'' ANARI_UNKNOWN = ANARI_FLOAT32
          \<or> getParam f ''channel.primitiveId'' ANARI_UNKNOWN = ANARI_UINT32
          \<or> getParam f ''channel.objectId'' ANARI_UNKNOWN = ANARI_UINT32
          \<or> getParam f ''channel.instanceId'' ANARI_UNKNOWN = ANARI_UINT32)
      then ANARI_FLOAT32 else getParam f ''channel.depth'' ANARI_UNKNOWN)"
  "m_primIDType (commit g state f) = getParam f ''channel.primitiveId'' ANARI_UNKNOWN"
  "m_objIDType (commit g state f) = getParam f ''channel.objectId'' ANARI_UNKNOWN"
  "m_instIDType (commit g state f) = getParam f ''channel.instanceId'' ANARI_UNKNOWN"
  "m_albedoType (commit g state f) = getParam f ''channel.albedo'' ANARI_UNKNOWN"
  "m_normalType (commit g state f) = getParam f ''channel.normal'' ANARI_UNKNOWN"
proof -
  have v: "m_valid (commit_objects state f)"
    using assms by (simp add: commit_def Let_def commit_buffers_keeps split: if_splits)
  then have e: "commit g state f = commit_buffers g (commit_objects state f)"
    by (simp add: commit_def Let_def)
  show "m_colorType (commit g state f) = getParam f ''channel.color'' ANARI_UFIXED8_RGBA_SRGB"
  "m_depthType (commit g state f) =
     (if (getParam f ''channel.depth'' ANARI_UNKNOWN = ANARI_FLOAT32
          \<or> getParam f ''channel.primitiveId'' ANARI_UNKNOWN = ANARI_UINT32
          \<or> getParam f ''channel.objectId'' ANARI_UNKNOWN = ANARI_UINT32
          \<or> getParam f ''channel.instanceId'' ANARI_UNKNOWN = ANARI_UINT32)
      then ANARI_FLOAT32 else getParam f ''channel.depth'' ANARI_UNKNOWN)"
  "m_primIDType (commit g state f) = getParam f ''channel.primitiveId'' ANARI_UNKNOWN"
  "m_objIDType (commit g state f) = getParam f ''channel.objectId'' ANARI_UNKNOWN"
  "m_instIDType (commit g state f) = getParam f ''channel.instanceId'' ANARI_UNKNOWN"
  "m_albedoType (commit g state f) = getParam f ''channel.albedo'' ANARI_UNKNOWN"
  "m_normalType (commit g state f) = getParam f ''channel.normal'' ANARI_UNKNOWN"
    unfolding e by (simp_all only: commit_buffers_types getParam_commit_objects)
qed

lemma map_frame_closed:
  "\<not> gate f channel \<Longrightarrow>
     map_frame g channel f
       = (\<lparr>retval = None, width = None, height = None, pixelType = ANARI_UNKNOWN\<rparr>, f)"
  by (auto simp add: map_frame_def gate_def Let_def)

lemma map_frame_open:
  "gate f channel \<Longrightarrow>
     retval (fst (map_frame g channel f)) \<noteq> None
     \<and> pixelType (fst (map_frame g channel f)) =
        (if channel = ''channel.color'' \<or> channel = ''channel.colorGPU'' then m_colorType f
         else if channel = ''channel.depth'' \<or> channel = ''channel.depthGPU''
         then ANARI_FLOAT32
         else if channel = ''channel.normal'' \<or> channel = ''channel.albedo''
         then ANARI_FLOAT32_VEC3
         else ANARI_UINT32)"
  by (auto simp add: map_frame_def gate_def Let_def mapColorBuffer_def mapGPUColorBuffer_def
        mapDownloaded_def mapGPUDepthBuffer_def mapScaled_def)



lemma getParam_eq:
  "t \<noteq> ANARI_UNKNOWN \<Longrightarrow>
     (getParam f n ANARI_UNKNOWN = t) = (param_channel (params f) n = Some t)"
  by (auto simp add: getParam_def split: option.splits)

lemma gate_commit:
  assumes "m_valid (commit g state f)"
  shows "gate (commit g state f) channel = channel_served (params f) channel"
  unfolding gate_def channel_served_def commit_types [OF assms]
  by (auto simp add: getParam_eq)

text \<open>
  Claim C7, as the code has it. After a commit that left the frame valid, \<open>map\<close> returns a
  pointer for exactly the channels of \<open>channel_served\<close>: colour and its device variant
  always (with the colour type stored at commit, \<open>UFIXED8_RGBA_SRGB\<close> when none was set),
  depth and its device variant when depth was asked as \<open>FLOAT32\<close> or any id channel as
  \<open>UINT32\<close>, an id channel asked as \<open>UINT32\<close>, normal and albedo asked as \<open>FLOAT32\<close>
  (reported as \<open>FLOAT32_VEC3\<close>). For every other channel name it returns the null pointer and
  the type \<open>ANARI_UNKNOWN\<close>, writes neither width nor height, and leaves the frame as it was.
\<close>

theorem map_frame_channel_gating:
  assumes "m_valid (commit g state f)"
  shows "(channel_served (params f) channel \<longrightarrow>
            retval (fst (map_frame g channel (commit g state f))) \<noteq> None
          \<and> pixelType (fst (map_frame g channel (commit g state f)))
              = served_type (params f) channel)
       \<and> (\<not> channel_served (params f) channel \<longrightarrow>
            map_frame g channel (commit g state f)
              = (\<lparr>retval = None, width = None, height = None, pixelType = ANARI_UNKNOWN\<rparr>,
                 commit g state f))"
proof -
  have o: "retval (fst (map_frame g channel (commit g state f))) \<noteq> None
          \<and> pixelType (fst (map_frame g channel (commit g state f)))
              = served_type (params f) channel"
    if s: "channel_served (params f) channel"
  proof -
    have "gate (commit g state f) channel" using s by (simp add: gate_commit [OF assms])
    from map_frame_open [OF this, of g] show ?thesis
      by (simp add: served_type_def commit_types(1) [OF assms] getParam_def)
  qed
  have c: "map_frame g channel (commit g state f)
              = (\<lparr>retval = None, width = None, height = None, pixelType = ANARI_UNKNOWN\<rparr>,
                 commit g state f)"
    if s: "\<not> channel_served (params f) channel"
  proof -
    have "\<not> gate (commit g state f) channel" using s by (simp add: gate_commit [OF assms])
    then show ?thesis by (rule map_frame_closed)
  qed
  from o c show ?thesis by blast
qed

lemma example_commit_valid:
  "param_renderer (params f) \<noteq> None \<Longrightarrow> param_camera (params f) \<noteq> None \<Longrightarrow>
   param_world (params f) \<noteq> None \<Longrightarrow>
   m_valid (commit g (example_state cb l n m) f)"
  by (auto simp add: commit_valid example_state_def example_renderer_def split: option.splits)

theorem map_frame_channel_gating_witness:
  "retval (fst (map_frame example_gpu ''channel.primitiveId''
       (commit example_gpu (example_state False 0 5 5) primid_only_frame))) \<noteq> None
   \<and> pixelType (fst (map_frame example_gpu ''channel.primitiveId''
       (commit example_gpu (example_state False 0 5 5) primid_only_frame))) = ANARI_UINT32
   \<and> map_frame example_gpu ''channel.normal''
       (commit example_gpu (example_state False 0 5 5) primid_only_frame)
       = (\<lparr>retval = None, width = None, height = None, pixelType = ANARI_UNKNOWN\<rparr>,
          commit example_gpu (example_state False 0 5 5) primid_only_frame)"
proof -
  have v: "m_valid (commit example_gpu (example_state False 0 5 5) primid_only_frame)"
    by (rule example_commit_valid)
       (simp_all add: primid_only_frame_def example_params_def)
  have s: "channel_served (params primid_only_frame) ''channel.primitiveId''"
    "\<not> channel_served (params primid_only_frame) ''channel.normal''"
    "served_type (params primid_only_frame) ''channel.primitiveId'' = ANARI_UINT32"
    by (simp_all add: channel_served_def served_type_def primid_only_frame_def)
  show ?thesis
    using map_frame_channel_gating [OF v, of "''channel.primitiveId''"]
      map_frame_channel_gating [OF v, of "''channel.normal''"] s
    by simp
qed

text \<open>
  Claim C7 as stated fails: a frame that asked for \<open>channel.primitiveId\<close> only, and for
  neither depth nor colour, still gets the depth buffer as \<open>FLOAT32\<close> and the colour buffer
  as \<open>UFIXED8_RGBA_SRGB\<close>.
\<close>

theorem map_frame_unrequested_counterexample:
  "param_channel (params primid_only_frame) ''channel.depth'' = None
   \<and> retval (fst (map_frame example_gpu ''channel.depth''
        (commit example_gpu (example_state False 0 5 5) primid_only_frame)))
       = Some (Host DepthBuffer)
   \<and> pixelType (fst (map_frame example_gpu ''channel.depth''
        (commit example_gpu (example_state False 0 5 5) primid_only_frame))) = ANARI_FLOAT32
   \<and> param_channel (params primid_only_frame) ''channel.color'' = None
   \<and> retval (fst (map_frame example_gpu ''channel.color''
        (commit example_gpu (example_state False 0 5 5) primid_only_frame)))
       = Some (Host PixelBuffer)
   \<and> pixelType (fst (map_frame example_gpu ''channel.color''
        (commit example_gpu (example_state False 0 5 5) primid_only_frame)))
       = ANARI_UFIXED8_RGBA_SRGB"
proof -
  define f where "f = commit example_gpu (example_state False 0 5 5) primid_only_frame"
  have v: "m_valid f"
    unfolding f_def
    by (rule example_commit_valid) (simp_all add: primid_only_frame_def example_params_def)
  have t: "m_depthType f = ANARI_FLOAT32" "m_colorType f = ANARI_UFIXED8_RGBA_SRGB"
    using commit_types(1,2) [OF v [unfolded f_def]]
    by (simp_all add: f_def getParam_def primid_only_frame_def)
  have d: "\<not> m_denoise f"
    by (simp add: f_def commit_keeps primid_only_frame_def example_frame_def)
  have "map_frame example_gpu ''channel.depth'' f
          = (\<lparr>retval = Some (Host DepthBuffer), width = Some (fst (size_fb (fb f))),
              height = Some (snd (size_fb (fb f))), pixelType = ANARI_FLOAT32\<rparr>,
             snd (mapDownloaded example_gpu DepthBuffer f))"
    by (simp add: map_frame_def Let_def t mapDownloaded_def)
  moreover have "fst (map_frame example_gpu ''channel.color'' f)
          = \<lparr>retval = Some (Host PixelBuffer), width = Some (fst (size_fb (fb f))),
              height = Some (snd (size_fb (fb f))), pixelType = ANARI_UFIXED8_RGBA_SRGB\<rparr>"
    by (simp add: map_frame_def Let_def t d mapColorBuffer_def)
  moreover have "param_channel (params primid_only_frame) ''channel.depth'' = None"
    "param_channel (params primid_only_frame) ''channel.color'' = None"
    by (simp_all add: primid_only_frame_def)
  ultimately show ?thesis
    unfolding f_def [symmetric] by simp
qed

text \<open>
  Claim C6. An invalid frame whose world pointer is not null is skipped: \<open>renderFrame\<close>
  reports the message and changes nothing else. But a frame committed without a world is
  invalid with a null \<open>m_world\<close>, and \<open>renderFrame\<close> calls \<open>m_world->rebuildBVHs()\<close>
  before it looks at \<open>isValid()\<close>: the call is a null pointer dereference, not a skip.
\<close>

theorem renderFrame_invalid_frame:
  "(\<not> m_valid f \<and> m_world f \<noteq> None \<longrightarrow>
      renderFrame g state f
        = Inr (reportMessage ANARI_SEVERITY_ERROR
                 ''skipping render of incomplete or invalid frame object'' f))
   \<and> (param_world (params f) = None \<longrightarrow>
        \<not> m_valid (commit g state f)
      \<and> renderFrame g state (commit g state f) = Inl (NullPointerDereference ''m_world''))"
  by (auto simp add: renderFrame_def isValid_def commit_keeps commit_valid)

theorem renderFrame_invalid_frame_witness:
  "\<not> m_valid (commit example_gpu (example_state False 0 5 5) worldless_frame)
   \<and> renderFrame example_gpu (example_state False 0 5 5)
       (commit example_gpu (example_state False 0 5 5) worldless_frame)
       = Inl (NullPointerDereference ''m_world'')
   \<and> renderFrame example_gpu (example_state False 0 5 5) (example_frame\<lparr>m_world := Some 0\<rparr>)
       = Inr (reportMessage ANARI_SEVERITY_ERROR
                ''skipping render of incomplete or invalid frame object''
                (example_frame\<lparr>m_world := Some 0\<rparr>))"
  using renderFrame_invalid_frame [of worldless_frame example_gpu "example_state False 0 5 5"]
    renderFrame_invalid_frame [of "example_frame\<lparr>m_world := Some 0\<rparr>" example_gpu
      "example_state False 0 5 5"]
  by (simp add: worldless_frame_def example_frame_def)










section \<open>Properties of the integrator\<close>


lemma trace_shadow_surfaces_eq:
  "trace_shadow_surfaces fd hits occ
     = (occ \<or> (\<exists>h \<in> set hits. 0.99 \<le> opacity (getMaterialValues fd h)))"
  by (induction hits arbitrary: occ) (auto simp add: anyhit_shadow_surface_def Let_def)

lemma isOccluded_eq:
  "isOccluded fd r = (\<exists>h \<in> set (shadow_surfaces fd r). 0.99 \<le> opacity (getMaterialValues fd h))"
  by (simp add: isOccluded_def trace_shadow_surfaces_eq)

lemma trace_shadow_surfaces_early:
  "0.99 \<le> opacity (getMaterialValues fd h) \<Longrightarrow>
     trace_shadow_surfaces fd (h # rest) occ = True"
  by (simp add: anyhit_shadow_surface_def Let_def)

lemma trace_shadow_surfaces_ignore:
  "opacity (getMaterialValues fd h) < 0.99 \<Longrightarrow>
     trace_shadow_surfaces fd (h # rest) occ = trace_shadow_surfaces fd rest occ"
  by (simp add: anyhit_shadow_surface_def Let_def)



lemma fold_fold_concat:
  "fold (\<lambda>xs acc. fold f xs acc) xss a = fold f (concat xss) a"
  by (induction xss arbitrary: a) simp_all

lemma computeLightConrib_fold:
  "computeLightConrib fd s hit =
     fold (\<lambda>l acc. light_contrib fd hit
                      (vadd (hitpoint hit) (vscale (hit_Ns hit) (hit_epsilon hit))) acc l)
       (concat (lightInstances fd)) ((0, 0, 0), s)"
  by (simp add: computeLightConrib_def Let_def fold_fold_concat)

lemma light_contrib_eq:
  "light_contrib fd hit sp (contrib, s) l =
       (let ls = fst (sampleLight fd s hit l);
            s1 = snd (sampleLight fd s hit l);
            r' = \<lparr>org = sp, dir = ls_dir ls, t_lower = ray_t_lower fd, t_upper = ls_dist ls\<rparr>
        in if \<exists>h \<in> set (shadow_surfaces fd r'). 0.99 \<le> opacity (getMaterialValues fd h)
           then (contrib, s1)
           else (vadd contrib
                   (vscale (radiance ls)
                      (dot (ls_dir ls) (hit_Ns hit) * lightFalloff fd
                       * (1 - fst (attenuation fd s1 r')))),
                 snd (attenuation fd s1 r')))"
  by (simp add: light_contrib_def Let_def isOccluded_eq split_beta)

lemma trace_shadow_volumes_step:
  "trace_shadow_volumes fd s (v # vs) a =
     trace_shadow_volumes fd (snd (rayMarchVolume fd s v a))
       (if fst (rayMarchVolume fd s v a) < 0.99 then vs
        else filter (\<lambda>h. vhit_t h < vhit_t v) vs)
       (fst (rayMarchVolume fd s v a))"
  by (simp add: anyhit_shadow_volume_def Let_def split_beta)

text \<open>
  Claim C5. A shadow ray is occluded exactly when one of the surfaces its traversal
  reports up to the light distance has a material opacity of at least 0.99. On such a
  surface the any-hit program sets the flag and terminates the ray, whatever is still to be
  visited; on a surface of opacity below 0.99 it ignores the intersection and leaves the
  flag, so the query is the same with all such surfaces removed. \<open>computeLightConrib\<close> runs
  over every light of every light instance, and for each light sample it adds nothing when
  the shadow ray is occluded and otherwise adds
  \<open>radiance * dot(dir, Ns) * lightFalloff * (1 - a)\<close>. Here \<open>a\<close> is the attenuation of the
  same shadow ray: it starts at 0, the any-hit program ray-marches each volume the traversal
  reports into it, ignores the intersection while it is below 0.99 and accepts the hit
  otherwise, which leaves only the nearer volumes to visit.
\<close>

theorem shadow_ray_semantics:
  "(isOccluded fd r
      = (\<exists>h \<in> set (shadow_surfaces fd r). 0.99 \<le> opacity (getMaterialValues fd h)))
   \<and> (0.99 \<le> opacity (getMaterialValues fd h) \<longrightarrow>
        anyhit_shadow_surface fd h occ = (True, TerminateRay)
      \<and> trace_shadow_surfaces fd (h # rest) occ = True)
   \<and> (opacity (getMaterialValues fd h) < 0.99 \<longrightarrow>
        anyhit_shadow_surface fd h occ = (occ, IgnoreIntersection)
      \<and> trace_shadow_surfaces fd (h # rest) occ = trace_shadow_surfaces fd rest occ)
   \<and> trace_shadow_surfaces fd hits occ
        = trace_shadow_surfaces fd
            (filter (\<lambda>h. 0.99 \<le> opacity (getMaterialValues fd h)) hits) occ
   \<and> computeLightConrib fd s hit =
        fold (\<lambda>l acc. light_contrib fd hit
                         (vadd (hitpoint hit) (vscale (hit_Ns hit) (hit_epsilon hit))) acc l)
          (concat (lightInstances fd)) ((0, 0, 0), s)
   \<and> light_contrib fd hit sp (contrib, s) l =
       (let ls = fst (sampleLight fd s hit l);
            s1 = snd (sampleLight fd s hit l);
            r' = \<lparr>org = sp, dir = ls_dir ls, t_lower = ray_t_lower fd, t_upper = ls_dist ls\<rparr>
        in if \<exists>h \<in> set (shadow_surfaces fd r'). 0.99 \<le> opacity (getMaterialValues fd h)
           then (contrib, s1)
           else (vadd contrib
                   (vscale (radiance ls)
                      (dot (ls_dir ls) (hit_Ns hit) * lightFalloff fd
                       * (1 - fst (attenuation fd s1 r')))),
                 snd (attenuation fd s1 r')))
   \<and> attenuation fd s r = trace_shadow_volumes fd s (shadow_volumes fd r) 0
   \<and> trace_shadow_volumes fd s [] a = (a, s)
   \<and> trace_shadow_volumes fd s (v # vs) a =
       trace_shadow_volumes fd (snd (rayMarchVolume fd s v a))
         (if fst (rayMarchVolume fd s v a) < 0.99 then vs
          else filter (\<lambda>h. vhit_t h < vhit_t v) vs)
         (fst (rayMarchVolume fd s v a))
   \<and> anyhit_shadow_volume fd s v a =
       (rayMarchVolume fd s v a,
        if fst (rayMarchVolume fd s v a) < 0.99 then IgnoreIntersection else AcceptHit)"
proof -
  have a: "trace_shadow_surfaces fd hits occ
        = trace_shadow_surfaces fd
            (filter (\<lambda>h. 0.99 \<le> opacity (getMaterialValues fd h)) hits) occ"
    by (auto simp add: trace_shadow_surfaces_eq)
  have b: "anyhit_shadow_volume fd s v a =
       (rayMarchVolume fd s v a,
        if fst (rayMarchVolume fd s v a) < 0.99 then IgnoreIntersection else AcceptHit)"
    by (simp add: anyhit_shadow_volume_def Let_def)
  have c: "(0.99 \<le> opacity (getMaterialValues fd h) \<longrightarrow>
        anyhit_shadow_surface fd h occ = (True, TerminateRay)
      \<and> trace_shadow_surfaces fd (h # rest) occ = True)
   \<and> (opacity (getMaterialValues fd h) < 0.99 \<longrightarrow>
        anyhit_shadow_surface fd h occ = (occ, IgnoreIntersection)
      \<and> trace_shadow_surfaces fd (h # rest) occ = trace_shadow_surfaces fd rest occ)"
    using trace_shadow_surfaces_early [of fd h rest occ]
      trace_shadow_surfaces_ignore [of fd h rest occ]
    by (simp add: anyhit_shadow_surface_def Let_def)
  have d: "attenuation fd s r = trace_shadow_volumes fd s (shadow_volumes fd r) 0"
    "trace_shadow_volumes fd s [] a = (a, s)"
    by (simp_all add: attenuation_def)
  show ?thesis
    by (intro conjI isOccluded_eq c [THEN conjunct1] c [THEN conjunct2] a
          computeLightConrib_fold light_contrib_eq d trace_shadow_volumes_step b)
qed



theorem shadow_ray_semantics_witness:
  "computeLightConrib (lit_scene [surface_at (1 / 2) 2] []) () (surface_at 5 2)
     = ((0, 0, 0), ())
   \<and> computeLightConrib (lit_scene [surface_at (1 / 2) 0] []) () (surface_at 5 2)
     = ((1, 1, 1), ())
   \<and> computeLightConrib (lit_scene [surface_at (1 / 4) 0, surface_at (1 / 2) 2] []) ()
       (surface_at 5 2) = ((0, 0, 0), ())
   \<and> computeLightConrib (lit_scene [surface_at 2 2] []) () (surface_at 5 2)
     = ((1, 1, 1), ())
   \<and> computeLightConrib (lit_scene [surface_at (1 / 2) 0] [volume_at (1 / 4)]) ()
       (surface_at 5 2) = ((1 / 2, 1 / 2, 1 / 2), ())
   \<and> computeLightConrib (lit_scene [] [volume_at (1 / 4), volume_at (3 / 4)]) ()
       (surface_at 5 2) = ((1 / 4, 1 / 4, 1 / 4), ())
   \<and> isOccluded (stack_scene [surface_at 2 0, surface_at 3 2, surface_at 4 2] example_materials)
     example_ray
   \<and> trace_shadow_surfaces (stack_scene [] example_materials)
       [surface_at 2 0, surface_at 3 2, surface_at 4 2] False
   \<and> \<not> isOccluded (stack_scene [surface_at 2 0, surface_at 3 0] example_materials) example_ray"
proof -
  note t = shadow_ray_semantics
  note c1 = t [THEN conjunct1]
  note c2 = t [THEN conjunct2, THEN conjunct1]
  note c3 = t [THEN conjunct2, THEN conjunct2, THEN conjunct1]
  note c5 = t [THEN conjunct2, THEN conjunct2, THEN conjunct2, THEN conjunct2, THEN conjunct1]
  note c6 = t [THEN conjunct2, THEN conjunct2, THEN conjunct2, THEN conjunct2, THEN conjunct2,
               THEN conjunct1]
  note c7 = t [THEN conjunct2, THEN conjunct2, THEN conjunct2, THEN conjunct2, THEN conjunct2,
               THEN conjunct2, THEN conjunct1]
  note c8 = t [THEN conjunct2, THEN conjunct2, THEN conjunct2, THEN conjunct2, THEN conjunct2,
               THEN conjunct2, THEN conjunct2, THEN conjunct1]
  note c9 = t [THEN conjunct2, THEN conjunct2, THEN conjunct2, THEN conjunct2, THEN conjunct2,
               THEN conjunct2, THEN conjunct2, THEN conjunct2, THEN conjunct1]
  note c10 = t [THEN conjunct2, THEN conjunct2, THEN conjunct2, THEN conjunct2, THEN conjunct2,
                THEN conjunct2, THEN conjunct2, THEN conjunct2, THEN conjunct2]
  note ev = lit_scene_def stack_scene_def surface_at_def example_materials_def volume_at_def
    vadd_def vscale_def dot_def Let_def
  have m: "opacity (getMaterialValues (stack_scene s example_materials) (surface_at d 0)) < 0.99"
    "0.99 \<le> opacity (getMaterialValues (stack_scene s example_materials) (surface_at d 2))"
    for s d
    by (simp_all add: stack_scene_def example_materials_def surface_at_def)
  have l1: "computeLightConrib (lit_scene [surface_at (1 / 2) 2] []) () (surface_at 5 2)
     = ((0, 0, 0), ())"
    by (simp add: c5 c6 ev)
  have l2: "computeLightConrib (lit_scene [surface_at (1 / 2) 0] []) () (surface_at 5 2)
     = ((1, 1, 1), ())"
    by (simp add: c5 c6 c7 c8 ev del: trace_shadow_volumes.simps)
  have l3: "computeLightConrib (lit_scene [surface_at (1 / 4) 0, surface_at (1 / 2) 2] []) ()
       (surface_at 5 2) = ((0, 0, 0), ())"
    by (simp add: c5 c6 ev)
  have l4: "computeLightConrib (lit_scene [surface_at 2 2] []) () (surface_at 5 2)
     = ((1, 1, 1), ())"
    by (simp add: c5 c6 c7 c8 ev del: trace_shadow_volumes.simps)
  have l5: "computeLightConrib (lit_scene [surface_at (1 / 2) 0] [volume_at (1 / 4)]) ()
       (surface_at 5 2) = ((1 / 2, 1 / 2, 1 / 2), ())"
    by (simp add: c5 c6 c7 c8 c9 c10 ev del: trace_shadow_volumes.simps)
  have l6: "computeLightConrib (lit_scene [] [volume_at (1 / 4), volume_at (3 / 4)]) ()
       (surface_at 5 2) = ((1 / 4, 1 / 4, 1 / 4), ())"
    by (simp add: c5 c6 c7 c8 c9 c10 ev del: trace_shadow_volumes.simps)
  have o: "isOccluded (stack_scene [surface_at 2 0, surface_at 3 2, surface_at 4 2]
             example_materials) example_ray"
    by (subst c1)
       (simp add: stack_scene_def example_ray_def surface_at_def example_materials_def)
  have t1: "trace_shadow_surfaces (stack_scene [] example_materials)
       [surface_at 2 0, surface_at 3 2, surface_at 4 2] False
      = trace_shadow_surfaces (stack_scene [] example_materials)
          [surface_at 3 2, surface_at 4 2] False"
    by (rule c3 [THEN mp, THEN conjunct2]) (rule m(1))
  have t2: "trace_shadow_surfaces (stack_scene [] example_materials)
          [surface_at 3 2, surface_at 4 2] False = True"
    by (rule c2 [THEN mp, THEN conjunct2]) (rule m(2))
  have n: "\<not> isOccluded (stack_scene [surface_at 2 0, surface_at 3 0] example_materials)
             example_ray"
    by (subst c1)
       (simp add: stack_scene_def example_ray_def surface_at_def example_materials_def)
  from l1 l2 l3 l4 l5 l6 o t1 t2 n show ?thesis by simp
qed

lemma accumulate_opaque: "accumulateValue a (accumulateValue v 1 v) a = 1"
  by (simp add: accumulateValue_def)

lemma hit_step_outputOpacity:
  "outputOpacity (hit_step fd p h) =
     accumulateValue (outputOpacity p)
       (accumulateValue
          (vm_opacity (fst (rayMarchAllVolumes fd (ss p) (ray p) (hit_t h) (0, 0, 0) 0 (- 1) (- 1))))
          (opacity (getMaterialValues fd h))
          (vm_opacity (fst (rayMarchAllVolumes fd (ss p) (ray p) (hit_t h) (0, 0, 0) 0 (- 1) (- 1)))))
       (outputOpacity p)"
  by (simp add: hit_step_def Let_def split_beta)

lemma raygen_loop_exit: "\<not> outputOpacity p < 0.99 \<Longrightarrow> raygen_loop fd p = Some p"
  by (subst raygen_loop.simps) simp

lemma raygen_loop_miss:
  "outputOpacity p < 0.99 \<Longrightarrow>
   intersectSurface fd (ss p) ((ray p)\<lparr>t_upper := tmax p\<rparr>) = (None, s') \<Longrightarrow>
   raygen_loop fd p = Some (miss_step fd (p\<lparr>ray := (ray p)\<lparr>t_upper := tmax p\<rparr>, ss := s'\<rparr>))"
  by (subst raygen_loop.simps) (simp add: Let_def)

lemma raygen_loop_hit:
  "outputOpacity p < 0.99 \<Longrightarrow>
   intersectSurface fd (ss p) ((ray p)\<lparr>t_upper := tmax p\<rparr>) = (Some h, s') \<Longrightarrow>
   raygen_loop fd p
     = raygen_loop fd (hit_step fd (p\<lparr>ray := (ray p)\<lparr>t_upper := tmax p\<rparr>, ss := s'\<rparr>) h)"
  by (subst raygen_loop.simps) (simp add: Let_def)

lemma raygen_loop_opaque:
  assumes "outputOpacity p < 0.99"
    and "intersectSurface fd (ss p) ((ray p)\<lparr>t_upper := tmax p\<rparr>) = (Some h, s')"
    and "opacity (getMaterialValues fd h) = 1"
  shows "raygen_loop fd p
           = Some (hit_step fd (p\<lparr>ray := (ray p)\<lparr>t_upper := tmax p\<rparr>, ss := s'\<rparr>) h)"
    and "outputOpacity (hit_step fd (p\<lparr>ray := (ray p)\<lparr>t_upper := tmax p\<rparr>, ss := s'\<rparr>) h) = 1"
proof -
  show o: "outputOpacity (hit_step fd (p\<lparr>ray := (ray p)\<lparr>t_upper := tmax p\<rparr>, ss := s'\<rparr>) h) = 1"
    by (simp only: hit_step_outputOpacity assms(3) accumulate_opaque)
  show "raygen_loop fd p
           = Some (hit_step fd (p\<lparr>ray := (ray p)\<lparr>t_upper := tmax p\<rparr>, ss := s'\<rparr>) h)"
    unfolding raygen_loop_hit [OF assms(1,2)]
    by (rule raygen_loop_exit) (simp add: o)
qed



lemma hit_step_stack:
  "hit_step (stack_scene surfaces mats) p h = hit_step (stack_scene [] mats) p h"
  by (simp add: hit_step_def stack_scene_def computeLightConrib_def Let_def)

lemma raygen_stack:
  assumes "opacity (mats (hit_material h)) = 1" "0 \<le> hit_t h" "hit_t h \<le> 1000"
  shows "raygen (stack_scene (h # rest) mats)
           = Some (Some (hit_step (stack_scene [] mats)
                           (raygen_init (stack_scene [] mats) ()) h))"
proof -
  define fd where "fd = stack_scene (h # rest) mats"
  define p where "p = raygen_init fd ()"
  have i: "raygen_init fd () = raygen_init (stack_scene [] mats) ()"
    by (simp add: fd_def raygen_init_def stack_scene_def)
  have a: "outputOpacity p < 0.99"
    by (simp add: p_def raygen_init_def)
  have r: "(ray p)\<lparr>t_upper := tmax p\<rparr> = ray p" "ss p = ()"
    by (simp_all add: p_def raygen_init_def)
  have b: "intersectSurface fd (ss p) ((ray p)\<lparr>t_upper := tmax p\<rparr>) = (Some h, ())"
    using assms(2,3) by (simp add: r) (simp add: p_def raygen_init_def fd_def stack_scene_def)
  have c: "opacity (getMaterialValues fd h) = 1"
    using assms(1) by (simp add: fd_def stack_scene_def)
  have "p\<lparr>ray := (ray p)\<lparr>t_upper := tmax p\<rparr>, ss := ()\<rparr> = p"
    by (simp add: r)
  with raygen_loop_opaque(1) [OF a b c]
  have "raygen_loop fd p = Some (hit_step fd p h)" by simp
  moreover have "hit_step fd p h = hit_step (stack_scene [] mats)
                           (raygen_init (stack_scene [] mats) ()) h"
    unfolding p_def i unfolding fd_def by (rule hit_step_stack)
  ultimately have "raygen_loop fd p = Some (hit_step (stack_scene [] mats)
                           (raygen_init (stack_scene [] mats) ()) h)"
    by simp
  moreover have "raygen fd = map_option Some (raygen_loop fd p)"
    by (simp add: raygen_def p_def Let_def) (simp add: fd_def stack_scene_def)
  ultimately show ?thesis by (simp add: fd_def)
qed

text \<open>
  Claim C3. The loop of \<open>__raygen__\<close> returns its locals untouched, without a surface
  query, as soon as the output opacity is not below 0.99. When the query finds no surface it
  ends with the miss branch, whatever the opacity. When the query finds a fully opaque
  surface (material opacity 1), that iteration ends the loop: the output opacity becomes 1
  and no later query is made. So for a stack of surfaces along the ray whose nearest one is
  fully opaque, the program ends, and what it hands to \<open>accumResults\<close> is what it hands
  over when that surface is alone: the deeper surfaces are neither intersected nor shaded by
  the loop.
\<close>

theorem raygen_loop_saturation:
  "(\<not> outputOpacity p < 0.99 \<longrightarrow> raygen_loop fd p = Some p)
   \<and> (outputOpacity p < 0.99
       \<and> intersectSurface fd (ss p) ((ray p)\<lparr>t_upper := tmax p\<rparr>) = (None, s')
       \<longrightarrow> raygen_loop fd p
             = Some (miss_step fd (p\<lparr>ray := (ray p)\<lparr>t_upper := tmax p\<rparr>, ss := s'\<rparr>)))
   \<and> (outputOpacity p < 0.99
       \<and> intersectSurface fd (ss p) ((ray p)\<lparr>t_upper := tmax p\<rparr>) = (Some h, s')
       \<and> opacity (getMaterialValues fd h) = 1
       \<longrightarrow> raygen_loop fd p
             = Some (hit_step fd (p\<lparr>ray := (ray p)\<lparr>t_upper := tmax p\<rparr>, ss := s'\<rparr>) h)
         \<and> outputOpacity
             (hit_step fd (p\<lparr>ray := (ray p)\<lparr>t_upper := tmax p\<rparr>, ss := s'\<rparr>) h) = 1)
   \<and> (opacity (mats (hit_material g)) = 1 \<and> 0 \<le> hit_t g \<and> hit_t g \<le> 1000
       \<longrightarrow> raygen (stack_scene (g # rest) mats) = raygen (stack_scene [g] mats)
         \<and> raygen (stack_scene (g # rest) mats)
             = Some (Some (hit_step (stack_scene [] mats)
                             (raygen_init (stack_scene [] mats) ()) g)))"
  using raygen_loop_exit [of p fd] raygen_loop_miss [of p fd s']
    raygen_loop_opaque [of p fd h s'] raygen_stack [of mats g rest] raygen_stack [of mats g "[]"]
  by simp

lemma hit_step_attribution:
  "depth_px (hit_step fd p h) =
     (if firstHit p
      then (if vm_depth (fst (rayMarchAllVolumes fd (ss p) (ray p) (hit_t h) (0, 0, 0) 0 (- 1) (- 1)))
                < hit_t h
            then vm_depth (fst (rayMarchAllVolumes fd (ss p) (ray p) (hit_t h) (0, 0, 0) 0 (- 1) (- 1)))
            else hit_t h)
      else depth_px p)"
  "primID_px (hit_step fd p h) =
     (if firstHit p
      then (if vm_depth (fst (rayMarchAllVolumes fd (ss p) (ray p) (hit_t h) (0, 0, 0) 0 (- 1) (- 1)))
                < hit_t h
            then 0 else hit_primID h)
      else primID_px p)"
  "objID_px (hit_step fd p h) =
     (if firstHit p
      then (if vm_depth (fst (rayMarchAllVolumes fd (ss p) (ray p) (hit_t h) (0, 0, 0) 0 (- 1) (- 1)))
                < hit_t h
            then vm_objID (fst (rayMarchAllVolumes fd (ss p) (ray p) (hit_t h) (0, 0, 0) 0 (- 1) (- 1)))
            else hit_objID h)
      else objID_px p)"
  "instID_px (hit_step fd p h) =
     (if firstHit p
      then (if vm_depth (fst (rayMarchAllVolumes fd (ss p) (ray p) (hit_t h) (0, 0, 0) 0 (- 1) (- 1)))
                < hit_t h
            then vm_instID (fst (rayMarchAllVolumes fd (ss p) (ray p) (hit_t h) (0, 0, 0) 0 (- 1) (- 1)))
            else hit_instID h)
      else instID_px p)"
  "outputNormal (hit_step fd p h) =
     (if firstHit p
      then (if vm_depth (fst (rayMarchAllVolumes fd (ss p) (ray p) (hit_t h) (0, 0, 0) 0 (- 1) (- 1)))
                < hit_t h
            then vneg (dir (ray p)) else hit_Ng h)
      else outputNormal p)"
  "\<not> firstHit (hit_step fd p h)"
  by (simp_all add: hit_step_def Let_def split_beta)

lemma miss_step_attribution:
  "\<not> firstHit p \<Longrightarrow>
     depth_px (miss_step fd p) = depth_px p \<and> primID_px (miss_step fd p) = primID_px p
   \<and> objID_px (miss_step fd p) = objID_px p \<and> instID_px (miss_step fd p) = instID_px p
   \<and> outputNormal (miss_step fd p) = outputNormal p"
  by (simp add: miss_step_def Let_def split_beta)

lemma raygen_loop_keeps_aux:
  assumes "raygen_loop fd p = Some r"
  shows "\<not> firstHit p \<longrightarrow>
       depth_px r = depth_px p \<and> primID_px r = primID_px p
     \<and> objID_px r = objID_px p \<and> instID_px r = instID_px p
     \<and> outputNormal r = outputNormal p"
proof (rule raygen_loop.raw_induct [where P = "\<lambda>fd p r. \<not> firstHit p \<longrightarrow>
       depth_px r = depth_px p \<and> primID_px r = primID_px p
     \<and> objID_px r = objID_px p \<and> instID_px r = instID_px p
     \<and> outputNormal r = outputNormal p", OF _ assms], goal_cases)
  case (1 loop fd p r)
  show ?case
  proof
    assume nf: "\<not> firstHit p"
    show "depth_px r = depth_px p \<and> primID_px r = primID_px p
     \<and> objID_px r = objID_px p \<and> instID_px r = instID_px p
     \<and> outputNormal r = outputNormal p"
    proof (cases "outputOpacity p < 0.99")
      case False
      with 1(2) show ?thesis by simp
    next
      case True
      obtain oh s' where
        i: "intersectSurface fd (ss p) ((ray p)\<lparr>t_upper := tmax p\<rparr>) = (oh, s')"
        by (cases "intersectSurface fd (ss p) ((ray p)\<lparr>t_upper := tmax p\<rparr>)")
      define p0 where "p0 = p\<lparr>ray := (ray p)\<lparr>t_upper := tmax p\<rparr>, ss := s'\<rparr>"
      have k: "\<not> firstHit p0" "depth_px p0 = depth_px p" "primID_px p0 = primID_px p"
        "objID_px p0 = objID_px p" "instID_px p0 = instID_px p"
        "outputNormal p0 = outputNormal p"
        using nf by (simp_all add: p0_def)
      show ?thesis
      proof (cases oh)
        case None
        with 1(2) True i have "r = miss_step fd p0" by (simp add: Let_def p0_def)
        then show ?thesis using miss_step_attribution [OF k(1), of fd] k by simp
      next
        case (Some h)
        with 1(2) True i have "loop fd (hit_step fd p0 h) = Some r"
          by (simp add: Let_def p0_def)
        from 1(1) [OF this] show ?thesis
          using k by (simp add: hit_step_attribution)
      qed
    qed
  qed
qed



theorem raygen_loop_saturation_witness:
  "raygen (stack_scene [surface_at 2 2, surface_at 3 2, surface_at 4 2] example_materials)
     = raygen (stack_scene [surface_at 2 2] example_materials)
   \<and> raygen (stack_scene [surface_at 2 2, surface_at 3 2, surface_at 4 2] example_materials)
     = Some (Some (hit_step (stack_scene [] example_materials)
                     (raygen_init (stack_scene [] example_materials) ()) (surface_at 2 2)))
   \<and> raygen_loop (stack_scene [] example_materials)
        ((raygen_init (stack_scene [] example_materials) ())\<lparr>outputOpacity := 1\<rparr>)
     = Some ((raygen_init (stack_scene [] example_materials) ())\<lparr>outputOpacity := 1\<rparr>)"
proof -
  have a: "opacity (example_materials (hit_material (surface_at 2 2))) = 1
           \<and> 0 \<le> hit_t (surface_at 2 2) \<and> hit_t (surface_at 2 2) \<le> 1000"
    by (simp add: example_materials_def surface_at_def)
  have b: "\<not> outputOpacity
              ((raygen_init (stack_scene [] example_materials) ())\<lparr>outputOpacity := 1\<rparr>) < 0.99"
    by simp
  note t = raygen_loop_saturation [of
      "(raygen_init (stack_scene [] example_materials) ())\<lparr>outputOpacity := 1\<rparr>"
      "stack_scene [] example_materials" "()" "surface_at 2 2" example_materials "surface_at 2 2"
      "[surface_at 3 2, surface_at 4 2]"]
  from t [THEN conjunct1] b t [THEN conjunct2, THEN conjunct2, THEN conjunct2] a
  show ?thesis by blast
qed




lemma hit_step_ray:
  "ray (hit_step fd p h) = (ray p)\<lparr>t_lower := hit_t h + hit_epsilon h\<rparr>"
  "tmax (hit_step fd p h) = tmax p"
  by (simp_all add: hit_step_def Let_def split_beta)

lemma raygen_loop_terminates:
  fixes m :: "'ss Pixel \<Rightarrow> nat"
  assumes dec: "\<And>p h s'. outputOpacity p < 0.99 \<Longrightarrow>
      intersectSurface fd (ss p) ((ray p)\<lparr>t_upper := tmax p\<rparr>) = (Some h, s') \<Longrightarrow>
      m (hit_step fd (p\<lparr>ray := (ray p)\<lparr>t_upper := tmax p\<rparr>, ss := s'\<rparr>) h) < m p"
  shows "\<exists>r. raygen_loop fd p = Some r"
proof (induction "m p" arbitrary: p rule: less_induct)
  case less
  show ?case
  proof (cases "outputOpacity p < 0.99")
    case False
    then show ?thesis using raygen_loop_exit [of p fd] by blast
  next
    case True
    obtain oh s' where
      i: "intersectSurface fd (ss p) ((ray p)\<lparr>t_upper := tmax p\<rparr>) = (oh, s')"
      by (cases "intersectSurface fd (ss p) ((ray p)\<lparr>t_upper := tmax p\<rparr>)")
    show ?thesis
    proof (cases oh)
      case None
      with raygen_loop_miss [OF True, of fd s'] i show ?thesis by blast
    next
      case (Some h)
      with i have i': "intersectSurface fd (ss p) ((ray p)\<lparr>t_upper := tmax p\<rparr>) = (Some h, s')"
        by simp
      from less [OF dec [OF True i']] raygen_loop_hit [OF True i']
      show ?thesis by simp
    qed
  qed
qed

text \<open>
  Claim C4. Let the ray meet finitely many surfaces: some count \<open>m\<close> of the locals goes
  down with every iteration that finds a surface. Take the loop at a point where no surface
  has been found yet (\<open>firstHit\<close> is set, as it is from the start until the first iteration that
  finds a surface). When that iteration finds the surface \<open>h\<close> and the volume march of the
  segment up to it returns the depth \<open>vDepth\<close>, the loop ends, after however many further
  iterations, and the depth, ids and normal it ends with are the volume's (\<open>vDepth\<close>, its
  object and instance ids, primitive id 0, the negated ray direction) when \<open>vDepth < h.t\<close>,
  and otherwise the surface's (its distance, the geometric normal, its primitive, object and
  instance ids).
\<close>

theorem raygen_first_hit_attribution:
  fixes m :: "'ss Pixel \<Rightarrow> nat"
  assumes dec: "\<And>q g t. outputOpacity q < 0.99 \<Longrightarrow>
      intersectSurface fd (ss q) ((ray q)\<lparr>t_upper := tmax q\<rparr>) = (Some g, t) \<Longrightarrow>
      m (hit_step fd (q\<lparr>ray := (ray q)\<lparr>t_upper := tmax q\<rparr>, ss := t\<rparr>) g) < m q"
    and "firstHit p" and "outputOpacity p < 0.99"
    and "intersectSurface fd (ss p) ((ray p)\<lparr>t_upper := tmax p\<rparr>) = (Some h, s')"
    and "rayMarchAllVolumes fd s' ((ray p)\<lparr>t_upper := tmax p\<rparr>) (hit_t h)
           (0, 0, 0) 0 (- 1) (- 1) = (vm, s'')"
  shows "\<exists>r. raygen_loop fd p = Some r
       \<and> (vm_depth vm < hit_t h \<longrightarrow>
            depth_px r = vm_depth vm \<and> objID_px r = vm_objID vm \<and> instID_px r = vm_instID vm
          \<and> primID_px r = 0 \<and> outputNormal r = vneg (dir (ray p)))
       \<and> (\<not> vm_depth vm < hit_t h \<longrightarrow>
            depth_px r = hit_t h \<and> objID_px r = hit_objID h \<and> instID_px r = hit_instID h
          \<and> primID_px r = hit_primID h \<and> outputNormal r = hit_Ng h)"
proof -
  define p0 where "p0 = p\<lparr>ray := (ray p)\<lparr>t_upper := tmax p\<rparr>, ss := s'\<rparr>"
  obtain r where r: "raygen_loop fd p = Some r"
    using raygen_loop_terminates [of fd m p] dec by blast
  have l: "raygen_loop fd (hit_step fd p0 h) = Some r"
    using raygen_loop_hit [OF assms(3,4)] r by (simp add: p0_def)
  have v: "fst (rayMarchAllVolumes fd (ss p0) (ray p0) (hit_t h) (0, 0, 0) 0 (- 1) (- 1)) = vm"
    using assms(5) by (simp add: p0_def)
  have f: "firstHit p0" "dir (ray p0) = dir (ray p)" using assms(2) by (simp_all add: p0_def)
  from raygen_loop_keeps_aux [OF l] hit_step_attribution(6) [of fd p0 h]
  have "depth_px r = depth_px (hit_step fd p0 h) \<and> primID_px r = primID_px (hit_step fd p0 h)
     \<and> objID_px r = objID_px (hit_step fd p0 h) \<and> instID_px r = instID_px (hit_step fd p0 h)
     \<and> outputNormal r = outputNormal (hit_step fd p0 h)"
    by blast
  then have "(vm_depth vm < hit_t h \<longrightarrow>
            depth_px r = vm_depth vm \<and> objID_px r = vm_objID vm \<and> instID_px r = vm_instID vm
          \<and> primID_px r = 0 \<and> outputNormal r = vneg (dir (ray p)))
       \<and> (\<not> vm_depth vm < hit_t h \<longrightarrow>
            depth_px r = hit_t h \<and> objID_px r = hit_objID h \<and> instID_px r = hit_instID h
          \<and> primID_px r = hit_primID h \<and> outputNormal r = hit_Ng h)"
    by (simp add: hit_step_attribution v f)
  with r show ?thesis by blast
qed

lemma filter_shrinks:
  assumes "x \<in> set xs" "P x" "\<not> Q x" "\<And>y. Q y \<Longrightarrow> P y"
  shows "length (filter Q xs) < length (filter P xs)"
proof -
  have a: "filter Q xs = filter Q (filter P xs)"
    using assms(4) by (auto simp add: filter_filter intro: filter_cong)
  have b: "x \<in> set (filter P xs)" using assms(1,2) by simp
  have "length (filter Q (filter P xs)) < length (filter P xs)"
    using b assms(3) by (rule length_filter_less)
  then show ?thesis by (subst a)
qed

lemma volume_scene_decreases:
  assumes e: "\<forall>x \<in> set surfaces. 0 < hit_epsilon x"
    and i: "intersectSurface (volume_scene d surfaces) (ss p) ((ray p)\<lparr>t_upper := tmax p\<rparr>)
              = (Some h, s')"
  shows "length (filter (\<lambda>x. t_lower (ray (hit_step (volume_scene d surfaces)
                   (p\<lparr>ray := (ray p)\<lparr>t_upper := tmax p\<rparr>, ss := s'\<rparr>) h)) \<le> hit_t x) surfaces)
       < length (filter (\<lambda>x. t_lower (ray p) \<le> hit_t x) surfaces)"
proof -
  have f: "List.find (\<lambda>x. t_lower (ray p) \<le> hit_t x \<and> hit_t x \<le> tmax p) surfaces = Some h"
    using i by (simp add: volume_scene_def stack_scene_def)
  then have h: "h \<in> set surfaces" "t_lower (ray p) \<le> hit_t h"
    by (auto simp add: find_Some_iff)
  have pos: "0 < hit_epsilon h" using e h(1) by blast
  show ?thesis
    unfolding hit_step_ray
    by (rule filter_shrinks [OF h(1)]) (use h(2) pos in auto)
qed



lemma volume_scene_start:
  fixes d t :: real and k :: nat and rest :: "SurfaceHit list"
  assumes "0 \<le> t" "t \<le> 1000"
  defines "fd \<equiv> volume_scene d (surface_at t k # rest)"
  shows "firstHit (raygen_init fd ())"
    and "outputOpacity (raygen_init fd ()) < 0.99"
    and "intersectSurface fd (ss (raygen_init fd ()))
           ((ray (raygen_init fd ()))\<lparr>t_upper := tmax (raygen_init fd ())\<rparr>)
          = (Some (surface_at t k), ())"
    and "rayMarchAllVolumes fd () ((ray (raygen_init fd ()))\<lparr>t_upper := tmax (raygen_init fd ())\<rparr>)
           (hit_t (surface_at t k)) (0, 0, 0) 0 (- 1) (- 1)
          = (if d < t \<and> 0 \<le> d
             then \<lparr>vm_depth = d, vm_color = (0, 0, 0), vm_opacity = 1 / 4, vm_objID = 7,
                   vm_instID = 9\<rparr>
             else \<lparr>vm_depth = t, vm_color = (0, 0, 0), vm_opacity = 0, vm_objID = - 1,
                   vm_instID = - 1\<rparr>, ())"
    and "dir (ray (raygen_init fd ())) = (0, 0, 1)"
proof -
  show "firstHit (raygen_init fd ())" "outputOpacity (raygen_init fd ()) < 0.99"
    by (simp_all add: raygen_init_def)
  show "intersectSurface fd (ss (raygen_init fd ()))
           ((ray (raygen_init fd ()))\<lparr>t_upper := tmax (raygen_init fd ())\<rparr>)
          = (Some (surface_at t k), ())"
    using assms(1,2)
    by (simp add: fd_def raygen_init_def volume_scene_def stack_scene_def surface_at_def)
  show "rayMarchAllVolumes fd () ((ray (raygen_init fd ()))\<lparr>t_upper := tmax (raygen_init fd ())\<rparr>)
           (hit_t (surface_at t k)) (0, 0, 0) 0 (- 1) (- 1)
          = (if d < t \<and> 0 \<le> d
             then \<lparr>vm_depth = d, vm_color = (0, 0, 0), vm_opacity = 1 / 4, vm_objID = 7,
                   vm_instID = 9\<rparr>
             else \<lparr>vm_depth = t, vm_color = (0, 0, 0), vm_opacity = 0, vm_objID = - 1,
                   vm_instID = - 1\<rparr>, ())"
    by (auto simp add: fd_def raygen_init_def volume_scene_def stack_scene_def surface_at_def)
  show "dir (ray (raygen_init fd ())) = (0, 0, 1)"
    by (simp add: fd_def raygen_init_def volume_scene_def stack_scene_def)
qed

lemma surface_at_sel:
  "hit_t (surface_at d k) = d" "hit_objID (surface_at d k) = word_of_nat k"
  "hit_primID (surface_at d k) = word_of_nat k" "hit_instID (surface_at d k) = 0"
  "hit_Ng (surface_at d k) = (0, 0, - 1)"
  by (simp_all add: surface_at_def)

lemma volume_scene_first_opacity:
  fixes d t :: real
  assumes "0 \<le> t" "t \<le> 1000"
  shows "outputOpacity (hit_step (volume_scene d (surface_at t 0 # rest))
           (raygen_init (volume_scene d (surface_at t 0 # rest)) ()) (surface_at t 0))
         = (if d < t \<and> 0 \<le> d then 5 / 8 else 1 / 2)"
  by (simp add: hit_step_outputOpacity)
     (auto simp add: raygen_init_def volume_scene_def stack_scene_def surface_at_def
        example_materials_def accumulateValue_def)

theorem raygen_first_hit_attribution_witness:
  "(\<exists>r. raygen_loop (volume_scene 3 [surface_at 5 0, surface_at 6 2])
            (raygen_init (volume_scene 3 [surface_at 5 0, surface_at 6 2]) ()) = Some r
        \<and> depth_px r = 3 \<and> objID_px r = 7 \<and> instID_px r = 9 \<and> primID_px r = 0
        \<and> outputNormal r = (0, 0, - 1))
   \<and> outputOpacity (hit_step (volume_scene 3 [surface_at 5 0, surface_at 6 2])
        (raygen_init (volume_scene 3 [surface_at 5 0, surface_at 6 2]) ()) (surface_at 5 0))
       = 5 / 8
   \<and> (\<exists>r. raygen_loop (volume_scene 5 [surface_at 3 2, surface_at 6 2])
            (raygen_init (volume_scene 5 [surface_at 3 2, surface_at 6 2]) ()) = Some r
        \<and> depth_px r = 3 \<and> objID_px r = 2 \<and> instID_px r = 0 \<and> primID_px r = 2
        \<and> outputNormal r = (0, 0, - 1))
   \<and> (\<exists>r. raygen_loop (volume_scene 5 [surface_at 3 0, surface_at 6 2])
            (raygen_init (volume_scene 5 [surface_at 3 0, surface_at 6 2]) ()) = Some r
        \<and> depth_px r = 3 \<and> objID_px r = 0 \<and> instID_px r = 0 \<and> primID_px r = 0
        \<and> outputNormal r = (0, 0, - 1))"
proof -
  have e: "\<forall>x \<in> set [surface_at a i, surface_at b j]. 0 < hit_epsilon x" for a b i j
    by (simp add: surface_at_def)
  note dec = volume_scene_decreases [OF e]
  have x: "\<exists>r. raygen_loop (volume_scene 3 [surface_at 5 0, surface_at 6 2])
            (raygen_init (volume_scene 3 [surface_at 5 0, surface_at 6 2]) ()) = Some r
        \<and> depth_px r = 3 \<and> objID_px r = 7 \<and> instID_px r = 9 \<and> primID_px r = 0
        \<and> outputNormal r = (0, 0, - 1)"
    using raygen_first_hit_attribution [where m = "\<lambda>p. length (filter (\<lambda>x. t_lower (ray p) \<le> hit_t x)
              [surface_at 5 0, surface_at 6 2])",
        OF dec volume_scene_start(1) [where t = 5 and d = 3]
        volume_scene_start(2) [where t = 5 and d = 3]
        volume_scene_start(3) [where t = 5 and d = 3]
        volume_scene_start(4) [where t = 5 and d = 3]]
    by (simp add: volume_scene_start(5) vneg_def surface_at_sel)
  have y: "\<exists>r. raygen_loop (volume_scene 5 [surface_at 3 2, surface_at 6 2])
            (raygen_init (volume_scene 5 [surface_at 3 2, surface_at 6 2]) ()) = Some r
        \<and> depth_px r = 3 \<and> objID_px r = 2 \<and> instID_px r = 0 \<and> primID_px r = 2
        \<and> outputNormal r = (0, 0, - 1)"
    using raygen_first_hit_attribution [where m = "\<lambda>p. length (filter (\<lambda>x. t_lower (ray p) \<le> hit_t x)
              [surface_at 3 2, surface_at 6 2])",
        OF dec volume_scene_start(1) [where t = 3 and d = 5]
        volume_scene_start(2) [where t = 3 and d = 5]
        volume_scene_start(3) [where t = 3 and d = 5]
        volume_scene_start(4) [where t = 3 and d = 5]]
    by (simp add: volume_scene_start(5) vneg_def surface_at_sel)
  have z: "\<exists>r. raygen_loop (volume_scene 5 [surface_at 3 0, surface_at 6 2])
            (raygen_init (volume_scene 5 [surface_at 3 0, surface_at 6 2]) ()) = Some r
        \<and> depth_px r = 3 \<and> objID_px r = 0 \<and> instID_px r = 0 \<and> primID_px r = 0
        \<and> outputNormal r = (0, 0, - 1)"
    using raygen_first_hit_attribution [where m = "\<lambda>p. length (filter (\<lambda>x. t_lower (ray p) \<le> hit_t x)
              [surface_at 3 0, surface_at 6 2])",
        OF dec volume_scene_start(1) [where t = 3 and d = 5]
        volume_scene_start(2) [where t = 3 and d = 5]
        volume_scene_start(3) [where t = 3 and d = 5]
        volume_scene_start(4) [where t = 3 and d = 5]]
    by (simp add: volume_scene_start(5) vneg_def surface_at_sel)
  have o: "outputOpacity (hit_step (volume_scene 3 [surface_at 5 0, surface_at 6 2])
        (raygen_init (volume_scene 3 [surface_at 5 0, surface_at 6 2]) ()) (surface_at 5 0))
       = 5 / 8"
    by (simp add: volume_scene_first_opacity)
  from x o y z show ?thesis by blast
qed

section \<open>Properties of the transfer function\<close>


text \<open>
  Claim C10. With parameters that pass the checks of \<open>commit\<close>, \<open>color.position\<close> set and
  \<open>opacity.position\<close> not set, \<open>discritizeTFData\<close> makes the span of the opacity positions
  from the null \<open>opacity.position\<close> array: the commit is a null pointer dereference, where
  the claim has the positions generated linearly. The test that guards the opacity positions
  is the one on \<open>color.position\<close>: without \<open>color.position\<close> the opacity positions are
  the linear ones, whether \<open>opacity.position\<close> is set or not.
\<close>

theorem tf_commit_absent_opacity_position:
  "(tf_checks_pass p \<and> params_colorPosition p \<noteq> None \<and> params_opacityPosition p = None
      \<longrightarrow> tf_commit h p tf = Inl (NullPointerDereference ''m_params.opacityPosition''))
   \<and> (tf_checks_pass p \<and> params_colorPosition p = None
      \<longrightarrow> (\<exists>tf'. tf_commit h p tf = Inr tf'
            \<and> map snd (m_tf tf')
                = map (\<lambda>i. getInterpolatedOpacity h (the (params_opacity p))
                              (generateLinearPositions h (length (the (params_opacity p)))
                                 (params_valueRange p))
                              (params_valueRange p) (sample_position h i (m_tfDim h)))
                    [0 ..< m_tfDim h]))"
  by (auto simp add: tf_checks_pass_def tf_commit_def discritizeTFData_def Let_def comp_def
        split: option.splits)

theorem tf_commit_absent_opacity_position_witness:
  "tf_checks_pass example_tf_params
   \<and> params_colorPosition example_tf_params = Some [0, 1]
   \<and> params_opacityPosition example_tf_params = None
   \<and> tf_commit example_helpers example_tf_params example_tf
       = Inl (NullPointerDereference ''m_params.opacityPosition'')"
  using tf_commit_absent_opacity_position [of example_tf_params example_helpers example_tf]
  by (simp add: tf_checks_pass_def example_tf_params_def)

end
